theory Spec2Isabelle
  imports Complex_Main
begin

section \<open>Python values shared by the modules\<close>

text \<open>
  A Python \<^verbatim>\<open>str\<close> is a sequence of Unicode code points; it is modelled as the list of
  its code points. \<open>ascii\<close> turns an ASCII literal into that representation.
\<close>

type_synonym pystr = "nat list"

definition ascii :: "string \<Rightarrow> pystr" where
  "ascii s = map of_char s"

text \<open>An embedding vector is a list of floats; a finite float is the real number it denotes.\<close>

type_synonym vector = "real list"

text \<open>
  The exceptions that travel through the backend. \<open>EmbeddingError\<close> and \<open>RetrievalError\<close>
  are the two classes of the repository; each carries its message and the exception it
  was raised \<^verbatim>\<open>from\<close>. The others are the library exceptions the code distinguishes:
  \<open>OpenAIError\<close> and \<open>HTTPError\<close> are the two classes the retry loop catches,
  \<open>IndexError\<close> is what \<^verbatim>\<open>response.data[0]\<close> raises on an empty list,
  \<open>UnexpectedResponse\<close> is the Qdrant client's exception, \<open>UnicodeEncodeError\<close>
  is what \<^verbatim>\<open>str.encode\<close> raises on a lone surrogate, and \<open>OtherException\<close>
  stands for any other subclass of \<^verbatim>\<open>Exception\<close>.
\<close>

datatype exn =
    OpenAIError pystr
  | HTTPError pystr
  | IndexError
  | UnexpectedResponse
  | UnicodeEncodeError
  | OtherException pystr
  | EmbeddingError pystr "exn option"
  | RetrievalError pystr "exn option"

text \<open>
  JSON-like values: what a dictionary of type \<^verbatim>\<open>Dict[str, Any]\<close> holds in a Qdrant
  payload or in the retriever's response. \<open>JNull\<close> is \<^verbatim>\<open>None\<close>.
\<close>

datatype jvalue =
    JNull
  | JBool bool
  | JInt int
  | JFloat real
  | JStr pystr
  | JList "jvalue list"
  | JDict "(pystr \<times> jvalue) list"

type_synonym pydict = "pystr \<rightharpoonup> jvalue"

text \<open>Python's truth value of an object, as \<^verbatim>\<open>or\<close> and \<^verbatim>\<open>not\<close> test it.\<close>

fun truthy :: "jvalue \<Rightarrow> bool" where
  "truthy JNull = False"
| "truthy (JBool b) = b"
| "truthy (JInt i) = (i \<noteq> 0)"
| "truthy (JFloat r) = (r \<noteq> 0)"
| "truthy (JStr s) = (s \<noteq> [])"
| "truthy (JList xs) = (xs \<noteq> [])"
| "truthy (JDict kvs) = (kvs \<noteq> [])"

definition py_or :: "jvalue \<Rightarrow> jvalue \<Rightarrow> jvalue" where
  "py_or a b = (if truthy a then a else b)"

text \<open>\<^verbatim>\<open>qmodels.PointStruct(id=..., vector=..., payload=...)\<close>.\<close>

record point =
  point_id :: pystr
  point_vector :: vector
  point_payload :: pydict

text \<open>
  Calls that leave the process are recorded, in order, in a trace. The state of the
  outside world (the embedding provider, the vector index) is a value of an arbitrary
  type \<open>'w\<close> that every external call may read and change.
\<close>

datatype event =
    EmbedRequest pystr
  | Sleep real
  | GetCollection
  | CreateCollection
  | Upsert "point list"
  | SearchRequest vector int

record 'w world =
  ext :: 'w
  trace :: "event list"

definition emit :: "event \<Rightarrow> 'w \<Rightarrow> 'w world \<Rightarrow> 'w world" where
  "emit e x w = \<lparr>ext = x, trace = trace w @ [e]\<rparr>"


section \<open>backend/embedder.py\<close>

text \<open>
  The outcome of one \<^verbatim>\<open>client.embeddings.create(...)\<close> call: a response whose
  \<^verbatim>\<open>data\<close> is a list of embeddings, or a raised exception.
\<close>

datatype create_outcome = Response "vector list" | Raises exn

type_synonym 'w embeddings_create = "pystr \<Rightarrow> 'w \<Rightarrow> create_outcome \<times> 'w"

text \<open>\<^verbatim>\<open>Embedder.__init__\<close> fixes the retry budget and the base delay.\<close>

definition max_retries :: nat where
  "max_retries = 3"

definition retry_delay :: real where
  "retry_delay = 2"

text \<open>The \<^verbatim>\<open>except (OpenAIError, httpx.HTTPError)\<close> clause.\<close>

fun caught_by_retry :: "exn \<Rightarrow> bool" where
  "caught_by_retry (OpenAIError m) = True"
| "caught_by_retry (HTTPError m) = True"
| "caught_by_retry e = False"

definition failed_msg :: pystr where
  "failed_msg = ascii ''Failed to generate embedding''"

definition empty_msg :: pystr where
  "empty_msg = ascii ''Query text must not be empty''"

text \<open>
  The \<^verbatim>\<open>for attempt in range(1, self._max_retries + 1)\<close> loop, entered at \<open>attempt\<close>.
  The first branch is the \<^verbatim>\<open>raise\<close> after the loop.
\<close>

function embed_attempts ::
  "'w embeddings_create \<Rightarrow> pystr \<Rightarrow> nat \<Rightarrow> 'w world \<Rightarrow> (exn + vector) \<times> 'w world" where
  "embed_attempts create text attempt w =
     (if max_retries < attempt then (Inl (EmbeddingError failed_msg None), w)
      else
        (case create text (ext w) of (out, x) \<Rightarrow>
           (let w1 = emit (EmbedRequest text) x w in
            (case out of
               Response data \<Rightarrow>
                 (case data of [] \<Rightarrow> (Inl IndexError, w1) | v # rest \<Rightarrow> (Inr v, w1))
             | Raises exc \<Rightarrow>
                 (if caught_by_retry exc then
                    (if max_retries \<le> attempt then (Inl (EmbeddingError failed_msg (Some exc)), w1)
                     else embed_attempts create text (attempt + 1)
                            (emit (Sleep (retry_delay * real attempt)) (ext w1) w1))
                  else (Inl exc, w1))))))"
  by pat_completeness auto
termination
  by (relation "measure (\<lambda>(create, text, attempt, w). max_retries + 1 - attempt)") auto

declare embed_attempts.simps [simp del]

definition embed ::
  "'w embeddings_create \<Rightarrow> pystr \<Rightarrow> 'w world \<Rightarrow> (exn + vector) \<times> 'w world" where
  "embed create text w =
     (if text = [] then (Inl (EmbeddingError empty_msg None), w)
      else embed_attempts create text 1 w)"


section \<open>backend/config.py and backend/retriever.py\<close>

text \<open>The fields of \<^verbatim>\<open>Settings\<close> that the retriever reads, with their defaults.\<close>

record settings =
  qdrant_collection :: pystr
  sim_threshold :: real
  top_k :: int

definition default_settings :: "pystr \<Rightarrow> settings" where
  "default_settings name = \<lparr>qdrant_collection = name, sim_threshold = 0.82, top_k = 5\<rparr>"

text \<open>
  A scored point returned by the index: \<^verbatim>\<open>top_hit.score\<close> (which the code allows to be
  \<^verbatim>\<open>None\<close>) and \<^verbatim>\<open>top_hit.payload\<close> (a dictionary or \<^verbatim>\<open>None\<close>).
\<close>

record hit =
  score :: "real option"
  payload :: "pydict option"

datatype search_outcome = Hits "hit list" | SearchRaises exn

type_synonym 'w client_search = "vector \<Rightarrow> int \<Rightarrow> 'w \<Rightarrow> search_outcome \<times> 'w"

text \<open>The attributes \<^verbatim>\<open>Retriever.__init__\<close> copies from the settings.\<close>

record retriever =
  collection :: pystr
  threshold :: real
  limit_k :: int

definition new_retriever :: "settings \<Rightarrow> retriever" where
  "new_retriever st =
     \<lparr>collection = qdrant_collection st, threshold = sim_threshold st, limit_k = top_k st\<rparr>"

text \<open>The two Korean literals of the module, as code points, and the dictionary keys.\<close>

definition no_results_text :: pystr where
  "no_results_text =
     [44160, 49353, 32, 44208, 44284, 44032, 32, 50630, 49845, 45768, 45796, 46]"

definition low_confidence_text :: pystr where
  "low_confidence_text =
     [9888, 65039, 32, 49888, 47280, 46020, 32, 45230, 51020] @ ascii ''(score<threshold)''"

definition search_failed_msg :: pystr where
  "search_failed_msg = ascii ''Vector search failed''"

definition k_answer :: pystr where "k_answer = ascii ''answer''"
definition k_score :: pystr where "k_score = ascii ''score''"
definition k_warning :: pystr where "k_warning = ascii ''warning''"
definition k_question :: pystr where "k_question = ascii ''question''"
definition k_source :: pystr where "k_source = ascii ''source''"
definition k_group_id :: pystr where "k_group_id = ascii ''group_id''"

text \<open>\<^verbatim>\<open>d.get(k)\<close>: the value, or \<^verbatim>\<open>None\<close> when the key is missing.\<close>

definition dict_get :: "pydict \<Rightarrow> pystr \<Rightarrow> jvalue" where
  "dict_get d k = (case d k of None \<Rightarrow> JNull | Some v \<Rightarrow> v)"

definition score_value :: "real option \<Rightarrow> jvalue" where
  "score_value sc = (case sc of None \<Rightarrow> JNull | Some r \<Rightarrow> JFloat r)"

text \<open>
  \<^verbatim>\<open>Retriever.search\<close> from \<^verbatim>\<open>if not hits\<close> to the final \<^verbatim>\<open>return\<close>: the decision
  taken on the list of hits. In \<^verbatim>\<open>top_hit.payload or {}\<close> an empty payload is falsy too
  and is replaced by the (equal) empty dictionary.
\<close>

definition search_result :: "retriever \<Rightarrow> hit list \<Rightarrow> pydict" where
  "search_result self hits =
     (case hits of
        [] \<Rightarrow> [k_answer \<mapsto> JStr no_results_text,
               k_score \<mapsto> JNull,
               k_warning \<mapsto> JStr low_confidence_text]
      | top_hit # others \<Rightarrow>
          (let pl = (case payload top_hit of None \<Rightarrow> Map.empty | Some d \<Rightarrow> d);
               answer = dict_get pl k_answer;
               response = [k_answer \<mapsto> py_or answer (JStr no_results_text),
                           k_score \<mapsto> score_value (score top_hit)];
               response = (case pl k_question of
                             None \<Rightarrow> response | Some q \<Rightarrow> response(k_question \<mapsto> q));
               response = (case pl k_source of
                             None \<Rightarrow> response | Some src \<Rightarrow> response(k_source \<mapsto> src))
           in (case score top_hit of
                 None \<Rightarrow> response(k_warning \<mapsto> JStr low_confidence_text)
               | Some sc \<Rightarrow>
                   (if sc < threshold self
                    then response(k_warning \<mapsto> JStr low_confidence_text)
                    else response))))"

text \<open>The whole method: the call to the index inside \<^verbatim>\<open>try\<close>, then the decision.\<close>

definition search ::
  "retriever \<Rightarrow> 'w client_search \<Rightarrow> vector \<Rightarrow> 'w world \<Rightarrow> (exn + pydict) \<times> 'w world" where
  "search self client_search v w =
     (case client_search v (limit_k self) (ext w) of (out, x) \<Rightarrow>
        (let w1 = emit (SearchRequest v (limit_k self)) x w in
         (case out of
            SearchRaises exc \<Rightarrow> (Inl (RetrievalError search_failed_msg (Some exc)), w1)
          | Hits hits \<Rightarrow> (Inr (search_result self hits), w1))))"


section \<open>scripts/build_embeddings.py: the record extractor\<close>

subsection \<open>String operations\<close>

text \<open>
  \<^verbatim>\<open>str.isspace\<close> of one code point: the white space that \<^verbatim>\<open>str.strip()\<close> removes.
\<close>

definition isspace :: "nat \<Rightarrow> bool" where
  "isspace c =
     ((9 \<le> c \<and> c \<le> 13) \<or> (28 \<le> c \<and> c \<le> 32) \<or> c = 133 \<or> c = 160 \<or> c = 5760
      \<or> (8192 \<le> c \<and> c \<le> 8202) \<or> c = 8232 \<or> c = 8233 \<or> c = 8239 \<or> c = 8287
      \<or> c = 12288)"

definition strip :: "pystr \<Rightarrow> pystr" where
  "strip s = rev (dropWhile isspace (rev (dropWhile isspace s)))"

text \<open>
  \<^verbatim>\<open>str.upper\<close> on the ASCII letters. Python also maps letters outside ASCII, by the
  Unicode tables; no such mapping begins with \<^verbatim>\<open>Q\<close>, and the only one that begins with
  \<^verbatim>\<open>A\<close> (U+1E9A) continues with U+02BE, so the two tests
  \<^verbatim>\<open>upper().startswith("Q.")\<close> and \<^verbatim>\<open>upper().startswith("A.")\<close>, the only uses of
  \<^verbatim>\<open>upper\<close> in the code, have the same outcome under this definition.
\<close>

definition upper_cp :: "nat \<Rightarrow> nat" where
  "upper_cp c = (if 97 \<le> c \<and> c \<le> 122 then c - 32 else c)"

definition upper :: "pystr \<Rightarrow> pystr" where
  "upper s = map upper_cp s"

definition startswith :: "pystr \<Rightarrow> pystr \<Rightarrow> bool" where
  "startswith s prefix = (take (length prefix) s = prefix)"

text \<open>\<^verbatim>\<open>str(n)\<close> of a non-negative integer, as the f-strings format the row numbers.\<close>

fun str_of_nat :: "nat \<Rightarrow> pystr" where
  "str_of_nat n = (if n < 10 then [48 + n] else str_of_nat (n div 10) @ [48 + n mod 10])"

subsection \<open>Cells and the data frame\<close>

text \<open>
  The value of one cell of the frame that \<^verbatim>\<open>pd.read_excel\<close> returns: \<^verbatim>\<open>None\<close>,
  the float NaN of an empty cell, a string, an integer, a finite float, a float infinity
  (of either sign; pandas reads the text \<^verbatim>\<open>inf\<close> in a numeric column as one), a
  boolean, or another object (a date, a time) that \<^verbatim>\<open>int()\<close> rejects with
  \<^verbatim>\<open>TypeError\<close>.
\<close>

datatype cell =
  CNone | CNaN | CStr pystr | CInt int | CFloat real | CInf | CBool bool | CObj

text \<open>\<^verbatim>\<open>pd.isna\<close> of a scalar.\<close>

fun isna :: "cell \<Rightarrow> bool" where
  "isna CNone = True"
| "isna CNaN = True"
| "isna c = False"

text \<open>
  The outcome of \<^verbatim>\<open>int(x)\<close>: the integer, or the \<^verbatim>\<open>TypeError\<close> or \<^verbatim>\<open>ValueError\<close>
  that the \<^verbatim>\<open>except (TypeError, ValueError)\<close> clause catches, or the
  \<^verbatim>\<open>OverflowError\<close> that \<^verbatim>\<open>int()\<close> raises on a float infinity and that the clause
  does not catch.
\<close>

datatype int_outcome = is_value: IntValue (the_value: int) | IntRejected | IntOverflow

text \<open>
  \<^verbatim>\<open>int(x)\<close>. A finite float is truncated towards zero. What \<^verbatim>\<open>int\<close> makes of a
  string is Python's integer-literal grammar, taken as the parameter \<open>int_of_str\<close>
  (\<open>None\<close> for the \<^verbatim>\<open>ValueError\<close> of a string that is no literal).
\<close>

fun py_int :: "(pystr \<Rightarrow> int option) \<Rightarrow> cell \<Rightarrow> int_outcome" where
  "py_int int_of_str CNone = IntRejected"
| "py_int int_of_str CNaN = IntRejected"
| "py_int int_of_str (CStr s) =
     (case int_of_str s of None \<Rightarrow> IntRejected | Some i \<Rightarrow> IntValue i)"
| "py_int int_of_str (CInt i) = IntValue i"
| "py_int int_of_str (CFloat r) = IntValue (if 0 \<le> r then \<lfloor>r\<rfloor> else \<lceil>r\<rceil>)"
| "py_int int_of_str CInf = IntOverflow"
| "py_int int_of_str (CBool b) = IntValue (if b then 1 else 0)"
| "py_int int_of_str CObj = IntRejected"

text \<open>
  The frame read with \<^verbatim>\<open>header=None\<close>, as the list of its columns; its row index is
  the default \<^verbatim>\<open>RangeIndex\<close>, so \<^verbatim>\<open>row_indices[idx]\<close> is \<open>idx\<close> and a label is in a
  column's index when it is below the column's length.
\<close>

type_synonym dataframe = "cell list list"

datatype xlsx = NoFile | Unreadable | Workbook dataframe

record QAPair =
  question :: pystr
  answer :: pystr
  group_id :: int
  source :: pystr

text \<open>
  What \<^verbatim>\<open>load_qa_pairs\<close> raises. \<open>EmptyQuestion\<close> to \<open>NoPairs\<close> are the
  \<^verbatim>\<open>ValueError\<close>s of the function, each with the fields its message is formatted
  from: row numbers are the 1-indexed \<^verbatim>\<open>row_idx + 1\<close> and \<^verbatim>\<open>next_row_idx + 1\<close>, a
  cell is the value the message prints. \<open>OverflowError\<close> is the exception of
  \<^verbatim>\<open>int(group_raw)\<close> that passes the \<^verbatim>\<open>except\<close> clause and leaves the function as
  it is, with Python's own message and no row number.
\<close>

datatype load_error =
    FileNotFoundError
  | ReadFailed
  | EmptyQuestion nat
  | MissingAnswer nat
  | ExpectedAnswer nat cell nat
  | EmptyAnswer nat
  | InvalidGroupId nat nat cell
  | OverflowError
  | NoPairs

text \<open>
  \<^verbatim>\<open>cell_value.strip() if isinstance(cell_value, str) else ""\<close>, as computed for the
  question row and for the answer row.
\<close>

fun cell_text :: "cell \<Rightarrow> pystr" where
  "cell_text (CStr s) = strip s"
| "cell_text c = []"

text \<open>\<^verbatim>\<open>col_b.loc[i] if i in col_b.index else None\<close>.\<close>

definition loc_or_none :: "cell list \<Rightarrow> nat \<Rightarrow> cell" where
  "loc_or_none col i = (if i < length col then col ! i else CNone)"

definition source_tag :: "nat \<Rightarrow> nat \<Rightarrow> pystr" where
  "source_tag row_idx next_row_idx =
     ascii ''xlsx_row_C'' @ str_of_nat (row_idx + 1) @ ascii ''_C'' @ str_of_nat (next_row_idx + 1)"

text \<open>The \<^verbatim>\<open>while idx < len(row_indices)\<close> loop, entered at \<open>idx\<close> with the pairs so far.\<close>

function scan_rows ::
  "(pystr \<Rightarrow> int option) \<Rightarrow> cell list \<Rightarrow> cell list \<Rightarrow> nat \<Rightarrow> QAPair list
     \<Rightarrow> load_error + QAPair list" where
  "scan_rows int_of_str col_b col_c idx qa_pairs =
     (if idx < length col_c then
        (let row_idx = idx;
             val = cell_text (col_c ! idx)
         in if startswith (upper val) (ascii ''Q.'') then
              (let q = strip (drop 2 val)
               in if q = [] then Inl (EmptyQuestion (row_idx + 1))
                  else if length col_c \<le> idx + 1 then Inl (MissingAnswer (row_idx + 1))
                  else
                    (let next_row_idx = idx + 1;
                         answer_cell = col_c ! (idx + 1);
                         answer_value = cell_text answer_cell
                     in if \<not> startswith (upper answer_value) (ascii ''A.'')
                        then Inl (ExpectedAnswer (row_idx + 1) answer_cell (next_row_idx + 1))
                        else
                          (let a = strip (drop 2 answer_value)
                           in if a = [] then Inl (EmptyAnswer (next_row_idx + 1))
                              else
                                (let group_raw = loc_or_none col_b row_idx;
                                     group_raw = (if isna group_raw
                                                  then loc_or_none col_b next_row_idx
                                                  else group_raw)
                                 in (case py_int int_of_str group_raw of
                                       IntRejected \<Rightarrow>
                                         Inl (InvalidGroupId (row_idx + 1) (next_row_idx + 1) group_raw)
                                     | IntOverflow \<Rightarrow> Inl OverflowError
                                     | IntValue g \<Rightarrow>
                                         scan_rows int_of_str col_b col_c (idx + 2)
                                           (qa_pairs @
                                              [\<lparr>question = q, answer = a, group_id = g,
                                                source = source_tag row_idx next_row_idx\<rparr>]))))))
            else scan_rows int_of_str col_b col_c (idx + 1) qa_pairs)
      else Inr qa_pairs)"
  by pat_completeness auto
termination
  by (relation "measure (\<lambda>(int_of_str, col_b, col_c, idx, qa_pairs). length col_c - idx)") auto

declare scan_rows.simps [simp del]

definition load_qa_pairs :: "(pystr \<Rightarrow> int option) \<Rightarrow> xlsx \<Rightarrow> load_error + QAPair list" where
  "load_qa_pairs int_of_str file =
     (case file of
        NoFile \<Rightarrow> Inl FileNotFoundError
      | Unreadable \<Rightarrow> Inl ReadFailed
      | Workbook df \<Rightarrow>
          (let col_b = (if 1 < length df then df ! 1 else []);
               col_c = (if 2 < length df then df ! 2 else [])
           in (case scan_rows int_of_str col_b col_c 0 [] of
                 Inl e \<Rightarrow> Inl e
               | Inr qa_pairs \<Rightarrow> if length qa_pairs = 0 then Inl NoPairs else Inr qa_pairs)))"


section \<open>scripts/build_embeddings.py: points and the ingestion run\<close>

text \<open>
  \<^verbatim>\<open>str.encode("utf-8")\<close>: the bytes of each code point; a surrogate (U+D800 to U+DFFF)
  cannot be encoded and raises \<^verbatim>\<open>UnicodeEncodeError\<close>, here \<open>None\<close>.
\<close>

definition encode_cp :: "nat \<Rightarrow> nat list option" where
  "encode_cp c =
     (if c < 128 then Some [c]
      else if c < 2048 then Some [192 + c div 64, 128 + c mod 64]
      else if 55296 \<le> c \<and> c \<le> 57343 then None
      else if c < 65536 then
        Some [224 + c div 4096, 128 + (c div 64) mod 64, 128 + c mod 64]
      else
        Some [240 + c div 262144, 128 + (c div 4096) mod 64, 128 + (c div 64) mod 64,
              128 + c mod 64])"

fun encode_utf8 :: "pystr \<Rightarrow> nat list option" where
  "encode_utf8 [] = Some []"
| "encode_utf8 (c # cs) =
     (case encode_cp c of
        None \<Rightarrow> None
      | Some bs \<Rightarrow> (case encode_utf8 cs of None \<Rightarrow> None | Some rest \<Rightarrow> Some (bs @ rest)))"

text \<open>\<^verbatim>\<open>hexdigest()\<close>: two lower-case hexadecimal digits for each byte of the digest.\<close>

definition hex_digit :: "nat \<Rightarrow> nat" where
  "hex_digit d = (if d < 10 then 48 + d else 87 + d)"

definition hexdigest :: "nat list \<Rightarrow> pystr" where
  "hexdigest bs = concat (map (\<lambda>b. [hex_digit (b div 16), hex_digit (b mod 16)]) bs)"

text \<open>
  \<^verbatim>\<open>hashlib.md5(pair.question.encode("utf-8")).hexdigest()\<close>. The digest function of
  \<^verbatim>\<open>hashlib\<close>, from bytes to the 16 bytes of the digest, is the parameter \<open>md5\<close>.
\<close>

definition question_id :: "(nat list \<Rightarrow> nat list) \<Rightarrow> pystr \<Rightarrow> pystr option" where
  "question_id md5 q = (case encode_utf8 q of None \<Rightarrow> None | Some bs \<Rightarrow> Some (hexdigest (md5 bs)))"

definition pair_payload :: "QAPair \<Rightarrow> pydict" where
  "pair_payload pair =
     [k_question \<mapsto> JStr (question pair),
      k_answer \<mapsto> JStr (answer pair),
      k_source \<mapsto> JStr (source pair),
      k_group_id \<mapsto> JInt (group_id pair)]"

text \<open>The \<^verbatim>\<open>for pair in pairs\<close> loop of \<^verbatim>\<open>build_points\<close>, with the points so far.\<close>

fun build_points_loop ::
  "(nat list \<Rightarrow> nat list) \<Rightarrow> 'w embeddings_create \<Rightarrow> QAPair list \<Rightarrow> point list \<Rightarrow> 'w world
     \<Rightarrow> (exn + point list) \<times> 'w world" where
  "build_points_loop md5 create [] points w = (Inr points, w)"
| "build_points_loop md5 create (pair # rest) points w =
     (case embed create (question pair) w of
        (Inl exc, w1) \<Rightarrow> (Inl exc, w1)
      | (Inr embedding, w1) \<Rightarrow>
          (case question_id md5 (question pair) of
             None \<Rightarrow> (Inl UnicodeEncodeError, w1)
           | Some pid \<Rightarrow>
               build_points_loop md5 create rest
                 (points @ [\<lparr>point_id = pid, point_vector = embedding,
                              point_payload = pair_payload pair\<rparr>]) w1))"

definition build_points ::
  "(nat list \<Rightarrow> nat list) \<Rightarrow> 'w embeddings_create \<Rightarrow> QAPair list \<Rightarrow> 'w world
     \<Rightarrow> (exn + point list) \<times> 'w world" where
  "build_points md5 create pairs w = build_points_loop md5 create pairs [] w"

text \<open>
  The operations of the Qdrant client that the script calls; each returns the exception
  it raised, if any, and the new state of the index.
\<close>

record 'w qdrant_client =
  get_collection :: "'w \<Rightarrow> exn option \<times> 'w"
  create_collection :: "'w \<Rightarrow> exn option \<times> 'w"
  upsert :: "point list \<Rightarrow> 'w \<Rightarrow> exn option \<times> 'w"

definition ensure_collection :: "'w qdrant_client \<Rightarrow> 'w world \<Rightarrow> exn option \<times> 'w world" where
  "ensure_collection client w =
     (case get_collection client (ext w) of (r, x) \<Rightarrow>
        (let w1 = emit GetCollection x w in
         (case r of
            None \<Rightarrow> (None, w1)
          | Some exc \<Rightarrow>
              (if exc = UnexpectedResponse then
                 (case create_collection client (ext w1) of (r2, x2) \<Rightarrow>
                    (r2, emit CreateCollection x2 w1))
               else (Some exc, w1)))))"

text \<open>
  \<^verbatim>\<open>main\<close>, returning the exit status. \<open>config\<close> is \<open>None\<close> when building the settings
  or one of the two clients raises (a required environment variable is missing); the
  logging calls are left out.
\<close>

definition main ::
  "(pystr \<Rightarrow> int option) \<Rightarrow> (nat list \<Rightarrow> nat list) \<Rightarrow> 'w embeddings_create \<Rightarrow> 'w qdrant_client
     \<Rightarrow> xlsx \<Rightarrow> settings option \<Rightarrow> 'w world \<Rightarrow> int \<times> 'w world" where
  "main int_of_str md5 create client file config w =
     (case load_qa_pairs int_of_str file of
        Inl exc \<Rightarrow> (1, w)
      | Inr qa_pairs \<Rightarrow>
          (case config of
             None \<Rightarrow> (1, w)
           | Some st \<Rightarrow>
               (case ensure_collection client w of
                  (Some exc, w1) \<Rightarrow> (1, w1)
                | (None, w1) \<Rightarrow>
                    (case build_points md5 create qa_pairs w1 of
                       (Inl exc, w2) \<Rightarrow> (1, w2)
                     | (Inr points, w2) \<Rightarrow>
                         (if points \<noteq> [] then
                            (case upsert client points (ext w2) of (r, x) \<Rightarrow>
                               (let w3 = emit (Upsert points) x w2 in
                                (case r of Some exc \<Rightarrow> (1, w3) | None \<Rightarrow> (0, w3))))
                          else (0, w2))))))"


section \<open>Predicates and concrete inputs used in the statements\<close>

subsection \<open>Retriever\<close>

text \<open>The dictionary that \<^verbatim>\<open>top_hit.payload or {}\<close> evaluates to.\<close>

definition payload_or_empty :: "hit \<Rightarrow> pydict" where
  "payload_or_empty h = (case payload h of None \<Rightarrow> Map.empty | Some d \<Rightarrow> d)"

fun nonempty_str :: "jvalue \<Rightarrow> bool" where
  "nonempty_str (JStr s) = (s \<noteq> [])"
| "nonempty_str v = False"

fun str_or_null :: "jvalue \<Rightarrow> bool" where
  "str_or_null (JStr s) = True"
| "str_or_null JNull = True"
| "str_or_null v = False"

text \<open>A retriever built from the default settings, and an index that returns fixed hits.\<close>

definition faq_retriever :: retriever where
  "faq_retriever = new_retriever (default_settings (ascii ''faq''))"

definition fixed_index :: "hit list \<Rightarrow> unit client_search" where
  "fixed_index hits v k x = (Hits hits, x)"

definition sure_hit :: hit where
  "sure_hit = \<lparr>score = Some 0.90, payload = Some [k_answer \<mapsto> JStr (ascii ''X is Y.'')]\<rparr>"

definition numeric_hit :: hit where
  "numeric_hit = \<lparr>score = Some 0.90, payload = Some [k_answer \<mapsto> JInt 42]\<rparr>"

definition empty_answer_hit :: hit where
  "empty_answer_hit = \<lparr>score = Some 0.90, payload = Some [k_answer \<mapsto> JStr []]\<rparr>"

subsection \<open>Embedder\<close>

text \<open>A provider whose state counts the calls: the first three fail, the later ones answer.\<close>

definition flaky :: "nat embeddings_create" where
  "flaky text n =
     (if n < 3 then (Raises (HTTPError (ascii ''timeout'')), Suc n)
      else (Response [[1, 0]], Suc n))"


subsection \<open>Record extractor\<close>

text \<open>
  Names for the tests and values of the loop body of \<^verbatim>\<open>load_qa_pairs\<close>: the two marker
  tests, the text left after the two-character prefix, the group value the code settles on
  for the pair that starts at row \<open>i\<close>, and the two columns the function reads.
\<close>

definition is_question_row :: "cell \<Rightarrow> bool" where
  "is_question_row c = startswith (upper (cell_text c)) (ascii ''Q.'')"

definition is_answer_row :: "cell \<Rightarrow> bool" where
  "is_answer_row c = startswith (upper (cell_text c)) (ascii ''A.'')"

definition marker_text :: "cell \<Rightarrow> pystr" where
  "marker_text c = strip (drop 2 (cell_text c))"

definition chosen_group :: "cell list \<Rightarrow> nat \<Rightarrow> cell" where
  "chosen_group col_b i =
     (if isna (loc_or_none col_b i) then loc_or_none col_b (i + 1) else loc_or_none col_b i)"

definition col_b_of :: "dataframe \<Rightarrow> cell list" where
  "col_b_of df = (if 1 < length df then df ! 1 else [])"

definition col_c_of :: "dataframe \<Rightarrow> cell list" where
  "col_c_of df = (if 2 < length df then df ! 2 else [])"

text \<open>The 1-indexed row numbers that an error's message prints.\<close>

fun error_rows :: "load_error \<Rightarrow> nat list" where
  "error_rows (EmptyQuestion n) = [n]"
| "error_rows (MissingAnswer n) = [n]"
| "error_rows (ExpectedAnswer n c m) = [n, m]"
| "error_rows (EmptyAnswer n) = [n]"
| "error_rows (InvalidGroupId n m c) = [n, m]"
| "error_rows e = []"

text \<open>
  A well-formed alternating sheet: an even number of rows, and for every \<open>k\<close> the row
  \<open>2k\<close> a question marker and the row \<open>2k + 1\<close> an answer marker, both with text left
  after the prefix, and a group value that \<^verbatim>\<open>int()\<close> accepts. \<open>pair_of\<close> is the record
  expected from the rows \<open>2k\<close> and \<open>2k + 1\<close> (its group is read where the conversion
  succeeds).
\<close>

definition pair_of :: "(pystr \<Rightarrow> int option) \<Rightarrow> cell list \<Rightarrow> cell list \<Rightarrow> nat \<Rightarrow> QAPair" where
  "pair_of p col_b col_c k =
     \<lparr>question = marker_text (col_c ! (2 * k)),
      answer = marker_text (col_c ! (2 * k + 1)),
      group_id = the_value (py_int p (chosen_group col_b (2 * k))),
      source = source_tag (2 * k) (2 * k + 1)\<rparr>"

definition well_formed :: "(pystr \<Rightarrow> int option) \<Rightarrow> cell list \<Rightarrow> cell list \<Rightarrow> bool" where
  "well_formed p col_b col_c =
     (even (length col_c) \<and>
      list_all (\<lambda>k. is_question_row (col_c ! (2 * k)) \<and> marker_text (col_c ! (2 * k)) \<noteq> [] \<and>
                    is_answer_row (col_c ! (2 * k + 1)) \<and>
                    marker_text (col_c ! (2 * k + 1)) \<noteq> [] \<and>
                    is_value (py_int p (chosen_group col_b (2 * k))))
        [0..<length col_c div 2])"

text \<open>
  Concrete sheets. \<open>no_literals\<close> is an \<open>int_of_str\<close> that rejects every string; the
  sheets keep their group values in numeric cells.
\<close>

definition no_literals :: "pystr \<Rightarrow> int option" where
  "no_literals s = None"

definition empty_sheet :: dataframe where
  "empty_sheet = [[], [], []]"

definition qa_sheet :: dataframe where
  "qa_sheet =
     [[CNaN, CNaN, CNaN, CNaN],
      [CInt 1, CNaN, CNaN, CFloat 2],
      [CStr (ascii ''Q. What is X?''), CStr (ascii ''A. X is Y.''),
       CStr (ascii '' q.Why? ''), CStr (ascii ''a. Because.'')]]"

definition what_pair :: QAPair where
  "what_pair = \<lparr>question = ascii ''What is X?'', answer = ascii ''X is Y.'', group_id = 1,
                 source = ascii ''xlsx_row_C1_C2''\<rparr>"

definition why_pair :: QAPair where
  "why_pair = \<lparr>question = ascii ''Why?'', answer = ascii ''Because.'', group_id = 2,
                source = ascii ''xlsx_row_C3_C4''\<rparr>"



definition bad_group_sheet :: dataframe where
  "bad_group_sheet =
     [[CNaN, CNaN], [CObj, CInt 7], [CStr (ascii ''Q. a''), CStr (ascii ''A. b'')]]"


definition inf_group_sheet :: dataframe where
  "inf_group_sheet =
     [[CNaN, CNaN], [CInf, CInt 7], [CStr (ascii ''Q. a''), CStr (ascii ''A. b'')]]"


subsection \<open>Point builder and ingestion run\<close>

text \<open>The lists of points handed to \<^verbatim>\<open>client.upsert\<close>, in the order of a trace.\<close>

fun upserts :: "event list \<Rightarrow> point list list" where
  "upserts [] = []"
| "upserts (Upsert pts # es) = pts # upserts es"
| "upserts (e # es) = upserts es"

text \<open>
  Concrete collaborators. \<open>sample_digest\<close> stands in for the digest function where an
  instance needs one (the statements hold for every digest function); \<open>steady\<close> is a
  provider that always answers, \<open>fading\<close> one that answers its first call only;
  \<open>ready_client\<close> is an index whose calls all succeed.
\<close>

definition sample_digest :: "nat list \<Rightarrow> nat list" where
  "sample_digest bs = [sum_list bs mod 256]"

definition steady :: "nat embeddings_create" where
  "steady q n = (Response [[1, 0]], Suc n)"

definition fading :: "nat embeddings_create" where
  "fading q n =
     (if n = 0 then (Response [[1, 0]], Suc n)
      else (Raises (OpenAIError (ascii ''down'')), Suc n))"

definition ready_client :: "nat qdrant_client" where
  "ready_client =
     \<lparr>get_collection = (\<lambda>x. (None, x)),
      create_collection = (\<lambda>x. (None, x)),
      upsert = (\<lambda>pts x. (None, x))\<rparr>"

definition revised_what_pair :: QAPair where
  "revised_what_pair =
     \<lparr>question = ascii ''What is X?'', answer = ascii ''X is Z.'', group_id = 9,
      source = ascii ''xlsx_row_C7_C8''\<rparr>"

definition what_point :: point where
  "what_point =
     \<lparr>point_id = ascii ''47'', point_vector = [1, 0], point_payload = pair_payload what_pair\<rparr>"

definition why_point :: point where
  "why_point =
     \<lparr>point_id = ascii ''77'', point_vector = [1, 0], point_payload = pair_payload why_pair\<rparr>"


section \<open>Properties of the embedder\<close>

lemma embed_attempts_returns:
  assumes "attempt \<le> max_retries" and "create text (ext w) = (Response (v # vs), x)"
  shows "embed_attempts create text attempt w = (Inr v, emit (EmbedRequest text) x w)"
  using assms by (subst embed_attempts.simps) (simp add: Let_def)

lemma embed_attempts_retries:
  assumes "attempt < max_retries" and "create text (ext w) = (Raises exc, x)"
    and "caught_by_retry exc"
  shows "embed_attempts create text attempt w =
           embed_attempts create text (attempt + 1)
             (emit (Sleep (retry_delay * real attempt)) x (emit (EmbedRequest text) x w))"
  using assms by (subst embed_attempts.simps) (simp add: Let_def emit_def)

lemma embed_attempts_gives_up:
  assumes "attempt = max_retries" and "create text (ext w) = (Raises exc, x)"
    and "caught_by_retry exc"
  shows "embed_attempts create text attempt w =
           (Inl (EmbeddingError failed_msg (Some exc)), emit (EmbedRequest text) x w)"
  using assms by (subst embed_attempts.simps) (simp add: Let_def)

text \<open>
  C9. \<^verbatim>\<open>embed("")\<close> raises \<open>EmbeddingError\<close> at once: the world is returned as it was,
  so the call adds no request to the provider (and no sleep) to the trace.
\<close>

theorem embed_empty_no_request:
  "embed create [] w = (Inl (EmbeddingError empty_msg None), w)"
  by (simp add: embed_def)

text \<open>
  C4. For a non-empty text: when the provider raises an exception of the two caught
  classes on three successive calls, \<open>embed\<close> makes exactly these three requests, sleeps
  2 and then 4 between them, and raises \<open>EmbeddingError\<close> whose cause is the third
  exception. When the first, second or third call returns an embedding, that embedding
  is returned and the trace ends with that request.
\<close>

theorem embed_retry_policy:
  assumes "text \<noteq> []"
  shows
    "(create text x0 = (Raises e1, x1) \<and> caught_by_retry e1 \<and>
      create text x1 = (Raises e2, x2) \<and> caught_by_retry e2 \<and>
      create text x2 = (Raises e3, x3) \<and> caught_by_retry e3 \<longrightarrow>
        embed create text \<lparr>ext = x0, trace = tr\<rparr> =
          (Inl (EmbeddingError failed_msg (Some e3)),
           \<lparr>ext = x3,
            trace = tr @ [EmbedRequest text, Sleep 2, EmbedRequest text, Sleep 4,
                          EmbedRequest text]\<rparr>))
     \<and> (create text x0 = (Response (v # vs), x1) \<longrightarrow>
        embed create text \<lparr>ext = x0, trace = tr\<rparr> =
          (Inr v, \<lparr>ext = x1, trace = tr @ [EmbedRequest text]\<rparr>))
     \<and> (create text x0 = (Raises e1, x1) \<and> caught_by_retry e1 \<and>
        create text x1 = (Response (v # vs), x2) \<longrightarrow>
        embed create text \<lparr>ext = x0, trace = tr\<rparr> =
          (Inr v, \<lparr>ext = x2, trace = tr @ [EmbedRequest text, Sleep 2, EmbedRequest text]\<rparr>))
     \<and> (create text x0 = (Raises e1, x1) \<and> caught_by_retry e1 \<and>
        create text x1 = (Raises e2, x2) \<and> caught_by_retry e2 \<and>
        create text x2 = (Response (v # vs), x3) \<longrightarrow>
        embed create text \<lparr>ext = x0, trace = tr\<rparr> =
          (Inr v,
           \<lparr>ext = x3,
            trace = tr @ [EmbedRequest text, Sleep 2, EmbedRequest text, Sleep 4,
                          EmbedRequest text]\<rparr>))"
  using assms
  by (simp add: embed_def embed_attempts_returns embed_attempts_retries embed_attempts_gives_up
      max_retries_def retry_delay_def emit_def)

theorem embed_retry_policy_witness:
  "ascii ''hi'' \<noteq> []
   \<and> embed flaky (ascii ''hi'') \<lparr>ext = 0, trace = []\<rparr> =
     (Inl (EmbeddingError failed_msg (Some (HTTPError (ascii ''timeout'')))),
      \<lparr>ext = 3,
       trace = [EmbedRequest (ascii ''hi''), Sleep 2, EmbedRequest (ascii ''hi''), Sleep 4,
                EmbedRequest (ascii ''hi'')]\<rparr>)
   \<and> embed flaky (ascii ''hi'') \<lparr>ext = 3, trace = []\<rparr> =
     (Inr [1, 0], \<lparr>ext = 4, trace = [EmbedRequest (ascii ''hi'')]\<rparr>)
   \<and> embed flaky (ascii ''hi'') \<lparr>ext = 2, trace = []\<rparr> =
     (Inr [1, 0],
      \<lparr>ext = 4, trace = [EmbedRequest (ascii ''hi''), Sleep 2, EmbedRequest (ascii ''hi'')]\<rparr>)
   \<and> embed flaky (ascii ''hi'') \<lparr>ext = 1, trace = []\<rparr> =
     (Inr [1, 0],
      \<lparr>ext = 4,
       trace = [EmbedRequest (ascii ''hi''), Sleep 2, EmbedRequest (ascii ''hi''), Sleep 4,
                EmbedRequest (ascii ''hi'')]\<rparr>)"
  using embed_retry_policy [of "ascii ''hi''" flaky 0 "HTTPError (ascii ''timeout'')" 1
      "HTTPError (ascii ''timeout'')" 2 "HTTPError (ascii ''timeout'')" 3 "[]" "[1,0]" "[]"]
    embed_retry_policy [of "ascii ''hi''" flaky 3 "HTTPError (ascii ''timeout'')" 4
      "HTTPError (ascii ''timeout'')" 2 "HTTPError (ascii ''timeout'')" 3 "[]" "[1,0]" "[]"]
    embed_retry_policy [of "ascii ''hi''" flaky 2 "HTTPError (ascii ''timeout'')" 3
      "HTTPError (ascii ''timeout'')" 4 "HTTPError (ascii ''timeout'')" 3 "[]" "[1,0]" "[]"]
    embed_retry_policy [of "ascii ''hi''" flaky 1 "HTTPError (ascii ''timeout'')" 2
      "HTTPError (ascii ''timeout'')" 3 "HTTPError (ascii ''timeout'')" 4 "[]" "[1,0]" "[]"]
  by (simp add: flaky_def ascii_def)


section \<open>Properties of the retriever\<close>

lemma keys_distinct:
  "k_answer \<noteq> k_score" "k_answer \<noteq> k_warning" "k_answer \<noteq> k_question" "k_answer \<noteq> k_source"
  "k_score \<noteq> k_warning" "k_score \<noteq> k_question" "k_score \<noteq> k_source"
  "k_warning \<noteq> k_question" "k_warning \<noteq> k_source" "k_question \<noteq> k_source"
  "k_score \<noteq> k_answer" "k_warning \<noteq> k_answer" "k_question \<noteq> k_answer" "k_source \<noteq> k_answer"
  "k_warning \<noteq> k_score" "k_question \<noteq> k_score" "k_source \<noteq> k_score"
  "k_question \<noteq> k_warning" "k_source \<noteq> k_warning" "k_source \<noteq> k_question"
  by (simp_all add: k_answer_def k_score_def k_warning_def k_question_def k_source_def ascii_def)

lemma no_results_nonempty: "no_results_text \<noteq> []"
  by (simp add: no_results_text_def)

lemma search_result_answer:
  "search_result self (h # hs) k_answer =
     Some (py_or (dict_get (payload_or_empty h) k_answer) (JStr no_results_text))"
  by (simp add: search_result_def payload_or_empty_def Let_def keys_distinct
      split: option.splits)

lemma search_result_warning:
  "search_result self (h # hs) k_warning =
     (case score h of
        None \<Rightarrow> Some (JStr low_confidence_text)
      | Some sc \<Rightarrow> if sc < threshold self then Some (JStr low_confidence_text) else None)"
  by (simp add: search_result_def Let_def keys_distinct split: option.splits)

lemma search_result_top_only: "search_result self (h # hs) = search_result self [h]"
  by (simp add: search_result_def)

lemma search_hits:
  "client_search v (limit_k self) (ext w) = (Hits hits, x) \<Longrightarrow>
   search self client_search v w =
     (Inr (search_result self hits), emit (SearchRequest v (limit_k self)) x w)"
  by (simp add: search_def Let_def)

lemma py_or_truthy: "truthy b \<Longrightarrow> truthy (py_or a b)"
  by (simp add: py_or_def)

lemma faq_retriever_fields: "limit_k faq_retriever = 5" "threshold faq_retriever = 0.82"
  by (simp_all add: faq_retriever_def new_retriever_def default_settings_def)

text \<open>
  C1. When the index returns at least one hit, the result is the one computed from the
  top hit alone. It has no \<open>warning\<close> field exactly when the top hit's score is present
  and at least the threshold, and carries the low-confidence warning exactly when the
  score is absent or strictly below the threshold. The \<open>answer\<close> field does not depend
  on the score and is always a truthy value. With threshold 0.82, a score of 0.90 gives
  no warning and a score of 0.70 gives the same answer with the warning.
\<close>

theorem search_confidence_gate:
  assumes "client_search v (limit_k self) (ext w) = (Hits (top_hit # others), x)"
  shows "search self client_search v w =
           (Inr (search_result self [top_hit]), emit (SearchRequest v (limit_k self)) x w)
     \<and> (search_result self [top_hit] k_warning = None) =
         (case score top_hit of None \<Rightarrow> False | Some sc \<Rightarrow> threshold self \<le> sc)
     \<and> (search_result self [top_hit] k_warning = Some (JStr low_confidence_text)) =
         (case score top_hit of None \<Rightarrow> True | Some sc \<Rightarrow> sc < threshold self)
     \<and> search_result self [top_hit] k_answer =
         Some (py_or (dict_get (payload_or_empty top_hit) k_answer) (JStr no_results_text))
     \<and> truthy (py_or (dict_get (payload_or_empty top_hit) k_answer) (JStr no_results_text))
     \<and> (threshold self = 0.82 \<longrightarrow>
          search_result self [top_hit\<lparr>score := Some 0.90\<rparr>] k_warning = None
        \<and> search_result self [top_hit\<lparr>score := Some 0.70\<rparr>] k_warning =
            Some (JStr low_confidence_text)
        \<and> search_result self [top_hit\<lparr>score := Some 0.70\<rparr>] k_answer =
            search_result self [top_hit\<lparr>score := Some 0.90\<rparr>] k_answer)"
proof -
  have "search self client_search v w =
          (Inr (search_result self (top_hit # others)), emit (SearchRequest v (limit_k self)) x w)"
    using assms by (rule search_hits)
  then have call: "search self client_search v w =
          (Inr (search_result self [top_hit]), emit (SearchRequest v (limit_k self)) x w)"
    by (simp add: search_result_top_only [of self top_hit others])
  have gate: "(search_result self [top_hit] k_warning = None) =
         (case score top_hit of None \<Rightarrow> False | Some sc \<Rightarrow> threshold self \<le> sc)"
    by (simp add: search_result_warning split: option.splits)
  have warn: "(search_result self [top_hit] k_warning = Some (JStr low_confidence_text)) =
         (case score top_hit of None \<Rightarrow> True | Some sc \<Rightarrow> sc < threshold self)"
    by (simp add: search_result_warning split: option.splits)
  have populated: "truthy (py_or (dict_get (payload_or_empty top_hit) k_answer) (JStr no_results_text))"
    by (simp add: py_or_truthy no_results_nonempty)
  have example: "threshold self = 0.82 \<longrightarrow>
          search_result self [top_hit\<lparr>score := Some 0.90\<rparr>] k_warning = None
        \<and> search_result self [top_hit\<lparr>score := Some 0.70\<rparr>] k_warning =
            Some (JStr low_confidence_text)
        \<and> search_result self [top_hit\<lparr>score := Some 0.70\<rparr>] k_answer =
            search_result self [top_hit\<lparr>score := Some 0.90\<rparr>] k_answer"
    by (simp add: search_result_warning search_result_answer payload_or_empty_def)
  show ?thesis
    using call gate warn populated example search_result_answer [of self top_hit "[]"] by blast
qed

theorem search_confidence_gate_witness:
  "search faq_retriever (fixed_index [sure_hit, numeric_hit]) [1, 0] \<lparr>ext = (), trace = []\<rparr> =
     (Inr (search_result faq_retriever [sure_hit]), \<lparr>ext = (), trace = [SearchRequest [1, 0] 5]\<rparr>)
   \<and> threshold faq_retriever = 0.82
   \<and> search_result faq_retriever [sure_hit] k_warning = None
   \<and> search_result faq_retriever [sure_hit] k_answer = Some (JStr (ascii ''X is Y.''))
   \<and> search_result faq_retriever [sure_hit\<lparr>score := Some 0.70\<rparr>] k_warning =
       Some (JStr low_confidence_text)
   \<and> search_result faq_retriever [sure_hit\<lparr>score := Some 0.70\<rparr>] k_answer =
       Some (JStr (ascii ''X is Y.''))"
  using search_confidence_gate [of "fixed_index [sure_hit, numeric_hit]" "[1, 0]" faq_retriever
      "\<lparr>ext = (), trace = []\<rparr>" sure_hit "[numeric_hit]" "()"]
  by (simp add: fixed_index_def emit_def faq_retriever_fields
      sure_hit_def payload_or_empty_def dict_get_def py_or_def ascii_def)

text \<open>
  C5. When the index returns no hit, the result is the dictionary with the fixed
  no-results answer, the score \<^verbatim>\<open>None\<close> and the low-confidence warning.
\<close>

theorem search_zero_hits:
  assumes "client_search v (limit_k self) (ext w) = (Hits [], x)"
  shows "search self client_search v w =
           (Inr (search_result self []), emit (SearchRequest v (limit_k self)) x w)
     \<and> search_result self [] =
         [k_answer \<mapsto> JStr no_results_text, k_score \<mapsto> JNull,
          k_warning \<mapsto> JStr low_confidence_text]
     \<and> search_result self [] k_answer = Some (JStr no_results_text)
     \<and> search_result self [] k_score = Some JNull
     \<and> search_result self [] k_warning = Some (JStr low_confidence_text)"
  using assms by (simp add: search_hits search_result_def keys_distinct)

theorem search_zero_hits_witness:
  "search faq_retriever (fixed_index []) [1, 0] \<lparr>ext = (), trace = []\<rparr> =
     (Inr (search_result faq_retriever []), \<lparr>ext = (), trace = [SearchRequest [1, 0] 5]\<rparr>)
   \<and> search_result faq_retriever [] k_answer = Some (JStr no_results_text)
   \<and> search_result faq_retriever [] k_score = Some JNull
   \<and> search_result faq_retriever [] k_warning = Some (JStr low_confidence_text)"
  using search_zero_hits [of "fixed_index []" "[1, 0]" faq_retriever "\<lparr>ext = (), trace = []\<rparr>" "()"]
  by (simp add: fixed_index_def emit_def faq_retriever_fields keys_distinct)

text \<open>
  C10, as stated, fails: a payload whose \<open>answer\<close> is the number 42 is returned as it
  is, and 42 is not a string.
\<close>

theorem search_answer_not_string:
  "search faq_retriever (fixed_index [numeric_hit]) [1, 0] \<lparr>ext = (), trace = []\<rparr> =
     (Inr (search_result faq_retriever [numeric_hit]),
      \<lparr>ext = (), trace = [SearchRequest [1, 0] 5]\<rparr>)
   \<and> search_result faq_retriever [numeric_hit] k_answer = Some (JInt 42)
   \<and> \<not> nonempty_str (JInt 42)"
  by (simp add: search_def fixed_index_def faq_retriever_fields emit_def numeric_hit_def
      search_result_answer payload_or_empty_def dict_get_def py_or_def)

text \<open>
  C10, amended. For every list of hits the \<open>answer\<close> field is present and truthy. It is
  the fixed no-results text when there is no hit, when the top payload has no \<open>answer\<close>
  key, and when the value under that key is falsy (\<^verbatim>\<open>None\<close>, the empty string, and also
  zero, \<^verbatim>\<open>False\<close>, an empty list or dictionary); otherwise it is the payload's value
  unchanged. So it is a non-empty string whenever the payload's value is a string or
  \<^verbatim>\<open>None\<close> or missing.
\<close>

theorem search_answer_truthy:
  assumes "client_search v (limit_k self) (ext w) = (Hits hits, x)"
  shows "search self client_search v w =
           (Inr (search_result self hits), emit (SearchRequest v (limit_k self)) x w)
     \<and> (case hits of
          [] \<Rightarrow> search_result self hits k_answer = Some (JStr no_results_text)
        | top_hit # others \<Rightarrow>
            (case payload_or_empty top_hit k_answer of
               None \<Rightarrow> search_result self hits k_answer = Some (JStr no_results_text)
             | Some a \<Rightarrow>
                 search_result self hits k_answer =
                   Some (if truthy a then a else JStr no_results_text)
                 \<and> (str_or_null a \<longrightarrow>
                      nonempty_str (if truthy a then a else JStr no_results_text))))
     \<and> truthy (dict_get (search_result self hits) k_answer)
     \<and> truthy (JStr no_results_text) \<and> nonempty_str (JStr no_results_text)"
proof -
  have call: "search self client_search v w =
           (Inr (search_result self hits), emit (SearchRequest v (limit_k self)) x w)"
    using assms by (rule search_hits)
  have fixed: "truthy (JStr no_results_text) \<and> nonempty_str (JStr no_results_text)"
    by (simp add: no_results_nonempty)
  have str: "str_or_null a \<Longrightarrow> truthy a \<Longrightarrow> nonempty_str a" for a
    by (cases a) simp_all
  have shape: "(case hits of
          [] \<Rightarrow> search_result self hits k_answer = Some (JStr no_results_text)
        | top_hit # others \<Rightarrow>
            (case payload_or_empty top_hit k_answer of
               None \<Rightarrow> search_result self hits k_answer = Some (JStr no_results_text)
             | Some a \<Rightarrow>
                 search_result self hits k_answer =
                   Some (if truthy a then a else JStr no_results_text)
                 \<and> (str_or_null a \<longrightarrow>
                      nonempty_str (if truthy a then a else JStr no_results_text))))"
  proof (cases hits)
    case Nil
    then show ?thesis by (simp add: search_result_def keys_distinct)
  next
    case (Cons top_hit others)
    then show ?thesis
      by (simp add: search_result_answer dict_get_def py_or_def no_results_nonempty str
          split: option.splits)
  qed
  have "truthy (dict_get (search_result self hits) k_answer)"
  proof (cases hits)
    case Nil
    then show ?thesis by (simp add: search_result_def keys_distinct dict_get_def no_results_nonempty)
  next
    case (Cons top_hit others)
    then show ?thesis
      by (simp add: search_result_answer dict_get_def [of "search_result self (top_hit # others)"]
          py_or_truthy no_results_nonempty)
  qed
  with call fixed shape show ?thesis by blast
qed

theorem search_answer_truthy_witness:
  "search faq_retriever (fixed_index [empty_answer_hit]) [1, 0] \<lparr>ext = (), trace = []\<rparr> =
     (Inr (search_result faq_retriever [empty_answer_hit]),
      \<lparr>ext = (), trace = [SearchRequest [1, 0] 5]\<rparr>)
   \<and> search_result faq_retriever [empty_answer_hit] k_answer = Some (JStr no_results_text)
   \<and> str_or_null (JStr []) \<and> nonempty_str (JStr no_results_text)"
  using search_answer_truthy [of "fixed_index [empty_answer_hit]" "[1, 0]" faq_retriever
      "\<lparr>ext = (), trace = []\<rparr>" "[empty_answer_hit]" "()"]
  by (simp add: fixed_index_def emit_def faq_retriever_fields empty_answer_hit_def
      payload_or_empty_def)


section \<open>Properties of the record extractor\<close>

subsection \<open>One iteration of the loop\<close>

lemma scan_rows_end:
  "length col_c \<le> idx \<Longrightarrow> scan_rows p col_b col_c idx acc = Inr acc"
  by (subst scan_rows.simps) simp

lemma scan_rows_skip:
  "idx < length col_c \<Longrightarrow> \<not> is_question_row (col_c ! idx) \<Longrightarrow>
   scan_rows p col_b col_c idx acc = scan_rows p col_b col_c (idx + 1) acc"
  by (subst scan_rows.simps) (simp add: is_question_row_def Let_def)

lemma scan_rows_question:
  "idx < length col_c \<Longrightarrow> is_question_row (col_c ! idx) \<Longrightarrow>
   scan_rows p col_b col_c idx acc =
     (if marker_text (col_c ! idx) = [] then Inl (EmptyQuestion (idx + 1))
      else if length col_c \<le> idx + 1 then Inl (MissingAnswer (idx + 1))
      else if \<not> is_answer_row (col_c ! (idx + 1))
        then Inl (ExpectedAnswer (idx + 1) (col_c ! (idx + 1)) (idx + 2))
      else if marker_text (col_c ! (idx + 1)) = [] then Inl (EmptyAnswer (idx + 2))
      else (case py_int p (chosen_group col_b idx) of
              IntRejected \<Rightarrow> Inl (InvalidGroupId (idx + 1) (idx + 2) (chosen_group col_b idx))
            | IntOverflow \<Rightarrow> Inl OverflowError
            | IntValue g \<Rightarrow>
                scan_rows p col_b col_c (idx + 2)
                  (acc @ [\<lparr>question = marker_text (col_c ! idx),
                           answer = marker_text (col_c ! (idx + 1)),
                           group_id = g, source = source_tag idx (idx + 1)\<rparr>])))"
  by (subst scan_rows.simps)
     (simp add: is_question_row_def is_answer_row_def marker_text_def chosen_group_def Let_def
        split: int_outcome.splits)

lemma scan_rows_pair:
  assumes "idx + 1 < length col_c" and "is_question_row (col_c ! idx)"
    and "marker_text (col_c ! idx) \<noteq> []" and "is_answer_row (col_c ! (idx + 1))"
    and "marker_text (col_c ! (idx + 1)) \<noteq> []"
  shows "scan_rows p col_b col_c idx acc =
     (case py_int p (chosen_group col_b idx) of
        IntRejected \<Rightarrow> Inl (InvalidGroupId (idx + 1) (idx + 2) (chosen_group col_b idx))
      | IntOverflow \<Rightarrow> Inl OverflowError
      | IntValue g \<Rightarrow>
          scan_rows p col_b col_c (idx + 2)
            (acc @ [\<lparr>question = marker_text (col_c ! idx),
                     answer = marker_text (col_c ! (idx + 1)),
                     group_id = g, source = source_tag idx (idx + 1)\<rparr>]))"
  using assms by (simp add: scan_rows_question)



lemma scan_rows_prefix:
  "scan_rows p col_b (take i col_c) idx acc = Inr ps \<Longrightarrow> idx \<le> i \<Longrightarrow> i \<le> length col_c \<Longrightarrow>
   scan_rows p col_b col_c idx acc = scan_rows p col_b col_c i ps"
proof (induction "i - idx" arbitrary: idx acc rule: less_induct)
  case less
  show ?case
  proof (cases "idx = i")
    case True
    with less.prems show ?thesis by (simp add: scan_rows_end)
  next
    case False
    with less.prems have lt: "idx < i" by simp
    then have in_pre: "idx < length (take i col_c)" and in_all: "idx < length col_c"
      using less.prems by simp_all
    have row: "take i col_c ! idx = col_c ! idx" using lt by simp
    show ?thesis
    proof (cases "is_question_row (col_c ! idx)")
      case False
      then have "scan_rows p col_b (take i col_c) (idx + 1) acc = Inr ps"
        using less.prems(1) in_pre row by (simp add: scan_rows_skip)
      then have "scan_rows p col_b col_c (idx + 1) acc = scan_rows p col_b col_c i ps"
        using less.hyps [of "idx + 1" acc] lt less.prems by simp
      then show ?thesis using False in_all by (simp add: scan_rows_skip)
    next
      case True
      then have qpre: "is_question_row (take i col_c ! idx)" by (simp add: row)
      note pre = scan_rows_question [OF in_pre qpre, of p col_b acc]
      from pre less.prems(1) have q: "marker_text (col_c ! idx) \<noteq> []"
        by (auto simp: row split: if_splits)
      from pre less.prems(1) q have next_in: "idx + 1 < i"
        using less.prems(3) by (auto simp: row split: if_splits)
      then have row2: "take i col_c ! (idx + 1) = col_c ! (idx + 1)" by simp
      have len: "\<not> length (take i col_c) \<le> idx + 1" using next_in less.prems(3) by simp
      from pre less.prems(1) q len
      have a: "is_answer_row (col_c ! (idx + 1))" "marker_text (col_c ! (idx + 1)) \<noteq> []"
        unfolding row row2 by (auto split: if_splits)
      have pair_pre: "scan_rows p col_b (take i col_c) idx acc =
          (case py_int p (chosen_group col_b idx) of
             IntRejected \<Rightarrow> Inl (InvalidGroupId (idx + 1) (idx + 2) (chosen_group col_b idx))
           | IntOverflow \<Rightarrow> Inl OverflowError
           | IntValue g \<Rightarrow>
               scan_rows p col_b (take i col_c) (idx + 2)
                 (acc @ [\<lparr>question = marker_text (col_c ! idx),
                          answer = marker_text (col_c ! (idx + 1)),
                          group_id = g, source = source_tag idx (idx + 1)\<rparr>]))"
        using scan_rows_pair [of idx "take i col_c" p col_b acc] next_in less.prems(3) True q a
        unfolding row row2 by simp
      from pair_pre less.prems(1)
      obtain g where g: "py_int p (chosen_group col_b idx) = IntValue g"
        and rest: "scan_rows p col_b (take i col_c) (idx + 2)
                  (acc @ [\<lparr>question = marker_text (col_c ! idx),
                           answer = marker_text (col_c ! (idx + 1)),
                           group_id = g, source = source_tag idx (idx + 1)\<rparr>]) = Inr ps"
        by (auto split: int_outcome.splits)
      have "scan_rows p col_b col_c (idx + 2)
                  (acc @ [\<lparr>question = marker_text (col_c ! idx),
                           answer = marker_text (col_c ! (idx + 1)),
                           group_id = g, source = source_tag idx (idx + 1)\<rparr>]) =
            scan_rows p col_b col_c i ps"
        using less.hyps [of "idx + 2", OF _ rest] next_in less.prems(3) by simp
      then show ?thesis
        using scan_rows_pair [of idx col_c p col_b acc] True q next_in less.prems(3) a g
        by simp
    qed
  qed
qed



lemma scan_rows_extends:
  "scan_rows p col_b col_c idx acc = Inr out \<Longrightarrow> \<exists>rest. out = acc @ rest"
proof (induction "length col_c - idx" arbitrary: idx acc rule: less_induct)
  case less
  show ?case
  proof (cases "idx < length col_c")
    case False
    with less.prems show ?thesis by (simp add: scan_rows_end)
  next
    case in_all: True
    show ?thesis
    proof (cases "is_question_row (col_c ! idx)")
      case False
      with less.prems in_all have "scan_rows p col_b col_c (idx + 1) acc = Inr out"
        by (simp add: scan_rows_skip)
      then show ?thesis using less.hyps [of "idx + 1" acc] in_all by simp
    next
      case True
      from less.prems scan_rows_question [OF in_all True, of p col_b acc]
      obtain r where "scan_rows p col_b col_c (idx + 2) (acc @ [r]) = Inr out"
        and "idx + 1 < length col_c"
        by (auto split: if_splits int_outcome.splits)
      then have "\<exists>rest. out = (acc @ [r]) @ rest"
        using less.hyps [of "idx + 2" "acc @ [r]"] by simp
      then show ?thesis by auto
    qed
  qed
qed

lemma scan_rows_well_formed:
  assumes "well_formed p col_b col_c"
  shows "k \<le> length col_c div 2 \<Longrightarrow>
         scan_rows p col_b col_c (2 * k) acc =
           Inr (acc @ map (pair_of p col_b col_c) [k..<length col_c div 2])"
proof (induction "length col_c div 2 - k" arbitrary: k acc rule: less_induct)
  case less
  from assms have ev: "even (length col_c)" by (simp add: well_formed_def)
  show ?case
  proof (cases "k = length col_c div 2")
    case True
    then have "length col_c \<le> 2 * k" using ev by auto
    then show ?thesis using True by (simp add: scan_rows_end)
  next
    case False
    with less.prems have lt: "k < length col_c div 2" by simp
    then have next_in: "2 * k + 1 < length col_c" by auto
    from assms lt
    have row: "is_question_row (col_c ! (2 * k))" "marker_text (col_c ! (2 * k)) \<noteq> []"
      "is_answer_row (col_c ! (2 * k + 1))" "marker_text (col_c ! (2 * k + 1)) \<noteq> []"
      "is_value (py_int p (chosen_group col_b (2 * k)))"
      by (simp_all add: well_formed_def list_all_iff)
    then obtain g where g: "py_int p (chosen_group col_b (2 * k)) = IntValue g"
      by (auto simp: int_outcome.is_value_def)
    have "scan_rows p col_b col_c (2 * k) acc =
            scan_rows p col_b col_c (2 * k + 2) (acc @ [pair_of p col_b col_c k])"
      using scan_rows_pair [OF next_in row(1-4), of p col_b acc] g by (simp add: pair_of_def)
    also have "\<dots> = Inr ((acc @ [pair_of p col_b col_c k]) @
                        map (pair_of p col_b col_c) [Suc k..<length col_c div 2])"
      using less.hyps [of "Suc k" "acc @ [pair_of p col_b col_c k]"] lt by simp
    also have "\<dots> = Inr (acc @ map (pair_of p col_b col_c) [k..<length col_c div 2])"
      using lt by (simp add: upt_conv_Cons)
    finally show ?thesis .
  qed
qed

lemma load_qa_pairs_workbook:
  "load_qa_pairs p (Workbook df) =
     (case scan_rows p (col_b_of df) (col_c_of df) 0 [] of
        Inl e \<Rightarrow> Inl e
      | Inr qa_pairs \<Rightarrow> if length qa_pairs = 0 then Inl NoPairs else Inr qa_pairs)"
  by (simp add: load_qa_pairs_def col_b_of_def col_c_of_def Let_def)





subsection \<open>The concrete sheets\<close>

lemmas string_eval =
  is_question_row_def is_answer_row_def marker_text_def startswith_def upper_def upper_cp_def
  strip_def isspace_def ascii_def

lemma upt_two: "[0..<2] = [0, Suc 0]"
  by (simp add: numeral_2_eq_2)

lemma qa_sheet_cols:
  "col_b_of qa_sheet = [CInt 1, CNaN, CNaN, CFloat 2]"
  "col_c_of qa_sheet = [CStr (ascii ''Q. What is X?''), CStr (ascii ''A. X is Y.''),
       CStr (ascii '' q.Why? ''), CStr (ascii ''a. Because.'')]"
  by (simp_all add: qa_sheet_def col_b_of_def col_c_of_def)

lemma qa_sheet_well_formed: "well_formed no_literals (col_b_of qa_sheet) (col_c_of qa_sheet)"
  by (simp add: well_formed_def qa_sheet_cols chosen_group_def loc_or_none_def string_eval
      upt_two)

lemma qa_sheet_pairs:
  "pair_of no_literals (col_b_of qa_sheet) (col_c_of qa_sheet) 0 = what_pair"
  "pair_of no_literals (col_b_of qa_sheet) (col_c_of qa_sheet) (Suc 0) = why_pair"
  by (simp_all add: pair_of_def what_pair_def why_pair_def qa_sheet_cols chosen_group_def
      loc_or_none_def source_tag_def string_eval)

lemma qa_sheet_scan:
  "scan_rows no_literals (col_b_of qa_sheet) (col_c_of qa_sheet) 0 [] = Inr [what_pair, why_pair]"
proof -
  have "length (col_c_of qa_sheet) div 2 = 2" by (simp add: qa_sheet_cols)
  then show ?thesis
    using scan_rows_well_formed [OF qa_sheet_well_formed, of 0 "[]"]
    by (simp add: qa_sheet_pairs upt_two)
qed

lemma qa_sheet_load:
  "load_qa_pairs no_literals (Workbook qa_sheet) = Inr [what_pair, why_pair]"
  by (simp add: load_qa_pairs_workbook qa_sheet_scan)

lemma qa_sheet_prefix:
  "scan_rows no_literals (col_b_of qa_sheet) (take 2 (col_c_of qa_sheet)) 0 [] = Inr [what_pair]"
proof -
  have wf: "well_formed no_literals (col_b_of qa_sheet) (take 2 (col_c_of qa_sheet))"
    by (simp add: well_formed_def qa_sheet_cols chosen_group_def loc_or_none_def string_eval)
  have "pair_of no_literals (col_b_of qa_sheet) (take 2 (col_c_of qa_sheet)) 0 = what_pair"
    by (simp add: pair_of_def what_pair_def qa_sheet_cols chosen_group_def
      loc_or_none_def source_tag_def string_eval)
  then show ?thesis
    using scan_rows_well_formed [OF wf, of 0 "[]"] by (simp add: qa_sheet_cols)
qed




lemma bad_group_cols:
  "col_b_of bad_group_sheet = [CObj, CInt 7]"
  "col_c_of bad_group_sheet = [CStr (ascii ''Q. a''), CStr (ascii ''A. b'')]"
  by (simp_all add: bad_group_sheet_def col_b_of_def col_c_of_def)


lemma inf_group_cols:
  "col_b_of inf_group_sheet = [CInf, CInt 7]"
  "col_c_of inf_group_sheet = [CStr (ascii ''Q. a''), CStr (ascii ''A. b'')]"
  by (simp_all add: inf_group_sheet_def col_b_of_def col_c_of_def)

subsection \<open>The claims\<close>

text \<open>
  C2, as stated, fails on a sheet with no rows: it is an alternating sequence of zero
  pairs, and the extractor raises instead of returning zero records.
\<close>

theorem extract_empty_sheet:
  "well_formed no_literals (col_b_of empty_sheet) (col_c_of empty_sheet)
   \<and> length (col_c_of empty_sheet) div 2 = 0
   \<and> load_qa_pairs no_literals (Workbook empty_sheet) = Inl NoPairs"
  by (simp add: well_formed_def empty_sheet_def col_b_of_def col_c_of_def load_qa_pairs_def
      scan_rows_end)

text \<open>
  C2, amended. For every well-formed alternating sheet with at least one row, the
  extractor returns exactly (number of rows) / 2 records: the \<open>k\<close>-th record is the one
  read from the rows \<open>2k\<close> and \<open>2k + 1\<close>, in document order and without removing
  duplicates; its question and answer are not empty and its source is
  \<^verbatim>\<open>xlsx_row_C\<close>, the 1-indexed number of the question row, \<^verbatim>\<open>_C\<close>, and the
  1-indexed number of the answer row.
\<close>

theorem extract_well_formed:
  assumes "well_formed p (col_b_of df) (col_c_of df)" and "col_c_of df \<noteq> []"
  shows "load_qa_pairs p (Workbook df) =
           Inr (map (pair_of p (col_b_of df) (col_c_of df)) [0..<length (col_c_of df) div 2])
     \<and> length (map (pair_of p (col_b_of df) (col_c_of df)) [0..<length (col_c_of df) div 2]) =
         length (col_c_of df) div 2
     \<and> list_all (\<lambda>r. question r \<noteq> [] \<and> answer r \<noteq> [])
         (map (pair_of p (col_b_of df) (col_c_of df)) [0..<length (col_c_of df) div 2])
     \<and> map source (map (pair_of p (col_b_of df) (col_c_of df)) [0..<length (col_c_of df) div 2]) =
         map (\<lambda>k. ascii ''xlsx_row_C'' @ str_of_nat (2 * k + 1) @ ascii ''_C'' @
                   str_of_nat (2 * k + 2))
           [0..<length (col_c_of df) div 2]"
proof -
  let ?c = "col_c_of df" and ?b = "col_b_of df"
  let ?out = "map (pair_of p ?b ?c) [0..<length ?c div 2]"
  have "even (length ?c)" using assms(1) by (simp add: well_formed_def)
  with assms(2) have pos: "0 < length ?c div 2" by (cases ?c) auto
  have scan: "scan_rows p ?b ?c 0 [] = Inr ?out"
    using scan_rows_well_formed [OF assms(1), of 0 "[]"] by simp
  have "?out \<noteq> []" using pos by simp
  with scan have load: "load_qa_pairs p (Workbook df) = Inr ?out"
    by (simp add: load_qa_pairs_workbook)
  have texts: "list_all (\<lambda>r. question r \<noteq> [] \<and> answer r \<noteq> []) ?out"
    using assms(1) by (simp add: well_formed_def list_all_iff pair_of_def)
  have tags: "map source ?out =
         map (\<lambda>k. ascii ''xlsx_row_C'' @ str_of_nat (2 * k + 1) @ ascii ''_C'' @
                   str_of_nat (2 * k + 2)) [0..<length ?c div 2]"
    by (simp add: pair_of_def source_tag_def del: str_of_nat.simps)
  from load texts tags show ?thesis by simp
qed

theorem extract_well_formed_witness:
  "well_formed no_literals (col_b_of qa_sheet) (col_c_of qa_sheet)
   \<and> col_c_of qa_sheet \<noteq> []
   \<and> length (col_c_of qa_sheet) div 2 = 2
   \<and> load_qa_pairs no_literals (Workbook qa_sheet) = Inr [what_pair, why_pair]"
proof -
  have ne: "col_c_of qa_sheet \<noteq> []" and len: "length (col_c_of qa_sheet) div 2 = 2"
    by (simp_all add: qa_sheet_cols)
  have "load_qa_pairs no_literals (Workbook qa_sheet) =
          Inr (map (pair_of no_literals (col_b_of qa_sheet) (col_c_of qa_sheet)) [0..<2])"
    using extract_well_formed [OF qa_sheet_well_formed ne] unfolding len by simp
  then have "load_qa_pairs no_literals (Workbook qa_sheet) = Inr [what_pair, why_pair]"
    by (simp add: qa_sheet_pairs upt_two)
  with qa_sheet_well_formed ne len show ?thesis by simp
qed




text \<open>
  What the loop does with the group value of a matched pair at the rows \<open>i\<close> and
  \<open>i + 1\<close> that the scan reaches. The value chosen is the group column at the question
  row, and the one at the answer row only when the former is missing (\<^verbatim>\<open>pd.isna\<close>).
  A value that \<^verbatim>\<open>int()\<close> rejects with one of the two caught exceptions gives the error
  naming both rows; a float infinity gives the \<^verbatim>\<open>OverflowError\<close> that is not caught;
  otherwise, whenever the extractor returns, the record of this pair has the converted
  integer as its \<open>group_id\<close>.
\<close>

lemma group_id_resolution:
  assumes "i + 1 < length (col_c_of df)"
    and "is_question_row (col_c_of df ! i)" and "marker_text (col_c_of df ! i) \<noteq> []"
    and "is_answer_row (col_c_of df ! (i + 1))" and "marker_text (col_c_of df ! (i + 1)) \<noteq> []"
    and "scan_rows p (col_b_of df) (take i (col_c_of df)) 0 [] = Inr before"
    and "chosen = (if isna (loc_or_none (col_b_of df) i)
                   then loc_or_none (col_b_of df) (i + 1)
                   else loc_or_none (col_b_of df) i)"
  shows "(py_int p chosen = IntRejected \<longrightarrow>
            load_qa_pairs p (Workbook df) = Inl (InvalidGroupId (i + 1) (i + 2) chosen))
     \<and> (py_int p chosen = IntOverflow \<longrightarrow> load_qa_pairs p (Workbook df) = Inl OverflowError)
     \<and> (\<forall>g pairs. py_int p chosen = IntValue g \<and> load_qa_pairs p (Workbook df) = Inr pairs \<longrightarrow>
            length before < length pairs \<and>
            pairs ! length before =
              \<lparr>question = marker_text (col_c_of df ! i),
               answer = marker_text (col_c_of df ! (i + 1)),
               group_id = g, source = source_tag i (i + 1)\<rparr>)"
proof -
  let ?c = "col_c_of df" and ?b = "col_b_of df"
  have ch: "chosen = chosen_group ?b i" using assms(7) by (simp add: chosen_group_def)
  have reach: "scan_rows p ?b ?c 0 [] = scan_rows p ?b ?c i before"
    using scan_rows_prefix [OF assms(6)] assms(1) by simp
  note step = scan_rows_pair [OF assms(1-5), of p ?b before]
  have bad: "load_qa_pairs p (Workbook df) = Inl (InvalidGroupId (i + 1) (i + 2) chosen)"
    if "py_int p chosen = IntRejected"
    using that reach step ch by (simp add: load_qa_pairs_workbook)
  have over: "load_qa_pairs p (Workbook df) = Inl OverflowError"
    if "py_int p chosen = IntOverflow"
    using that reach step ch by (simp add: load_qa_pairs_workbook)
  have good: "length before < length pairs \<and>
            pairs ! length before =
              \<lparr>question = marker_text (?c ! i), answer = marker_text (?c ! (i + 1)),
               group_id = g, source = source_tag i (i + 1)\<rparr>"
    if g: "py_int p chosen = IntValue g" and ld: "load_qa_pairs p (Workbook df) = Inr pairs"
    for g pairs
  proof -
    let ?r = "\<lparr>question = marker_text (?c ! i), answer = marker_text (?c ! (i + 1)),
               group_id = g, source = source_tag i (i + 1)\<rparr>"
    from ld have "scan_rows p ?b ?c 0 [] = Inr pairs"
      by (auto simp: load_qa_pairs_workbook split: sum.splits if_splits)
    with reach step g ch have "scan_rows p ?b ?c (i + 2) (before @ [?r]) = Inr pairs"
      by simp
    then obtain rest where "pairs = (before @ [?r]) @ rest"
      using scan_rows_extends by blast
    then show ?thesis by (simp add: nth_append)
  qed
  from bad over good show ?thesis by blast
qed

lemma group_id_resolution_example:
  "load_qa_pairs no_literals (Workbook bad_group_sheet) = Inl (InvalidGroupId 1 2 CObj)
   \<and> isna (loc_or_none (col_b_of qa_sheet) 2)
   \<and> loc_or_none (col_b_of qa_sheet) 3 = CFloat 2
   \<and> py_int no_literals (CFloat 2) = IntValue 2
   \<and> load_qa_pairs no_literals (Workbook qa_sheet) = Inr [what_pair, why_pair]
   \<and> [what_pair, why_pair] ! 1 =
       \<lparr>question = ascii ''Why?'', answer = ascii ''Because.'', group_id = 2,
        source = ascii ''xlsx_row_C3_C4''\<rparr>"
proof -
  have b1: "0 + 1 < length (col_c_of bad_group_sheet)"
    and b2: "is_question_row (col_c_of bad_group_sheet ! 0)"
    and b3: "marker_text (col_c_of bad_group_sheet ! 0) \<noteq> []"
    and b4: "is_answer_row (col_c_of bad_group_sheet ! (0 + 1))"
    and b5: "marker_text (col_c_of bad_group_sheet ! (0 + 1)) \<noteq> []"
    by (simp_all add: bad_group_cols string_eval)
  have b6: "scan_rows no_literals (col_b_of bad_group_sheet)
              (take 0 (col_c_of bad_group_sheet)) 0 [] = Inr []"
    by (simp add: scan_rows_end)
  have b7: "CObj = (if isna (loc_or_none (col_b_of bad_group_sheet) 0)
                    then loc_or_none (col_b_of bad_group_sheet) (0 + 1)
                    else loc_or_none (col_b_of bad_group_sheet) 0)"
    by (simp add: bad_group_cols loc_or_none_def)
  have bad: "load_qa_pairs no_literals (Workbook bad_group_sheet) =
               Inl (InvalidGroupId 1 2 CObj)"
    using group_id_resolution [OF b1 b2 b3 b4 b5 b6 b7] by simp
  have g1: "2 + 1 < length (col_c_of qa_sheet)"
    and g2: "is_question_row (col_c_of qa_sheet ! 2)"
    and g3: "marker_text (col_c_of qa_sheet ! 2) \<noteq> []"
    and g4: "is_answer_row (col_c_of qa_sheet ! (2 + 1))"
    and g5: "marker_text (col_c_of qa_sheet ! (2 + 1)) \<noteq> []"
    by (simp_all add: qa_sheet_cols string_eval)
  have row: "isna (loc_or_none (col_b_of qa_sheet) 2)"
    "loc_or_none (col_b_of qa_sheet) 3 = CFloat 2"
    by (simp_all add: qa_sheet_cols loc_or_none_def)
  have g7: "CFloat 2 = (if isna (loc_or_none (col_b_of qa_sheet) 2)
                        then loc_or_none (col_b_of qa_sheet) (2 + 1)
                        else loc_or_none (col_b_of qa_sheet) 2)"
    using row by simp
  have conv: "py_int no_literals (CFloat 2) = IntValue 2" by simp
  have "[what_pair, why_pair] ! length [what_pair] =
       \<lparr>question = marker_text (col_c_of qa_sheet ! 2),
        answer = marker_text (col_c_of qa_sheet ! (2 + 1)),
        group_id = 2, source = source_tag 2 (2 + 1)\<rparr>"
    using group_id_resolution [OF g1 g2 g3 g4 g5 qa_sheet_prefix g7] conv qa_sheet_load
    by blast
  then have good: "[what_pair, why_pair] ! 1 =
       \<lparr>question = ascii ''Why?'', answer = ascii ''Because.'', group_id = 2,
        source = ascii ''xlsx_row_C3_C4''\<rparr>"
    by (simp add: why_pair_def)
  from bad row conv qa_sheet_load good show ?thesis by simp
qed

text \<open>
  C7 holds except for one value, on which the code fails. In this sheet the rows 1 and
  2 are a matched pair and the group cell at the question row is a float infinity,
  which is present (\<^verbatim>\<open>pd.isna\<close> is false), so it is the value chosen. \<^verbatim>\<open>int()\<close>
  raises \<^verbatim>\<open>OverflowError\<close> on it, the \<^verbatim>\<open>except (TypeError, ValueError)\<close> clause
  lets that pass, and \<^verbatim>\<open>load_qa_pairs\<close> raises it as it is: an error that names no
  row, where the claim has the error naming both rows.
\<close>

theorem group_id_overflow_uncaught:
  "is_question_row (col_c_of inf_group_sheet ! 0)
   \<and> is_answer_row (col_c_of inf_group_sheet ! 1)
   \<and> loc_or_none (col_b_of inf_group_sheet) 0 = CInf
   \<and> isna CInf = False
   \<and> py_int p CInf = IntOverflow
   \<and> load_qa_pairs p (Workbook inf_group_sheet) = Inl OverflowError
   \<and> error_rows OverflowError = []"
proof -
  have pair: "0 + 1 < length (col_c_of inf_group_sheet)"
    "is_question_row (col_c_of inf_group_sheet ! 0)"
    "marker_text (col_c_of inf_group_sheet ! 0) \<noteq> []"
    "is_answer_row (col_c_of inf_group_sheet ! (0 + 1))"
    "marker_text (col_c_of inf_group_sheet ! (0 + 1)) \<noteq> []"
    by (simp_all add: inf_group_cols string_eval)
  have chosen: "chosen_group (col_b_of inf_group_sheet) 0 = CInf"
    and cell: "loc_or_none (col_b_of inf_group_sheet) 0 = CInf"
    by (simp_all add: chosen_group_def loc_or_none_def inf_group_cols)
  have "scan_rows p (col_b_of inf_group_sheet) (col_c_of inf_group_sheet) 0 [] =
          Inl OverflowError"
    using scan_rows_pair [OF pair, of p "col_b_of inf_group_sheet" "[]"] chosen by simp
  then have "load_qa_pairs p (Workbook inf_group_sheet) = Inl OverflowError"
    by (simp add: load_qa_pairs_workbook)
  with pair(2,4) cell show ?thesis by simp
qed


section \<open>Properties of the point builder and of the ingestion run\<close>

subsection \<open>What the steps add to the trace\<close>

lemma upserts_append: "upserts (xs @ ys) = upserts xs @ upserts ys"
  by (induction xs rule: upserts.induct) simp_all

lemma embed_attempts_upserts:
  "upserts (trace (snd (embed_attempts create q attempt w))) = upserts (trace w)"
proof (induction create q attempt w rule: embed_attempts.induct)
  case (1 create q attempt w)
  show ?case
    apply (subst embed_attempts.simps)
    using 1
    apply (auto simp: Let_def emit_def upserts_append split: prod.splits create_outcome.splits list.splits)
    done
qed

lemma embed_upserts: "upserts (trace (snd (embed create q w))) = upserts (trace w)"
  by (simp add: embed_def embed_attempts_upserts)

lemma build_points_loop_upserts:
  "upserts (trace (snd (build_points_loop md5 create pairs pts w))) = upserts (trace w)"
proof (induction pairs arbitrary: pts w)
  case Nil
  then show ?case by simp
next
  case (Cons pair rest)
  show ?case
    using Cons.IH embed_upserts [of create "question pair" w]
    by (auto split: prod.splits sum.splits option.splits)
qed

lemma build_points_loop_payloads:
  "build_points_loop md5 create pairs pts w = (Inr out, w') \<Longrightarrow>
   map point_payload out = map point_payload pts @ map pair_payload pairs"
proof (induction pairs arbitrary: pts w)
  case Nil
  then show ?case by simp
next
  case (Cons pair rest)
  then show ?case
    by (auto split: prod.splits sum.splits option.splits)
qed

lemma build_points_loop_ids:
  "build_points_loop md5 create pairs pts w = (Inr out, w') \<Longrightarrow>
   map (\<lambda>p. Some (point_id p)) out =
     map (\<lambda>p. Some (point_id p)) pts @ map (\<lambda>r. question_id md5 (question r)) pairs"
proof (induction pairs arbitrary: pts w)
  case Nil
  then show ?case by simp
next
  case (Cons pair rest)
  then show ?case
    by (auto split: prod.splits sum.splits option.splits)
qed

lemma build_points_loop_append:
  "build_points_loop md5 create (xs @ ys) pts w =
     (case build_points_loop md5 create xs pts w of
        (Inl exc, w1) \<Rightarrow> (Inl exc, w1)
      | (Inr pts1, w1) \<Rightarrow> build_points_loop md5 create ys pts1 w1)"
  by (induction xs arbitrary: pts w) (auto split: prod.splits sum.splits option.splits)

lemma ensure_collection_upserts:
  "upserts (trace (snd (ensure_collection client w))) = upserts (trace w)"
  by (auto simp: ensure_collection_def Let_def emit_def upserts_append split: prod.splits option.splits)

lemma build_points_ids:
  assumes "build_points md5 create pairs w = (Inr points, w')"
  shows "map (\<lambda>p. Some (point_id p)) points = map (\<lambda>r. question_id md5 (question r)) pairs"
  using build_points_loop_ids [of md5 create pairs "[]" w points w'] assms
  by (simp add: build_points_def)

lemma build_points_upserts:
  "upserts (trace (snd (build_points md5 create pairs w))) = upserts (trace w)"
  by (simp add: build_points_def build_points_loop_upserts)

lemma build_points_payloads:
  "build_points md5 create pairs w = (Inr points, w') \<Longrightarrow>
   map point_payload points = map pair_payload pairs"
  using build_points_loop_payloads [of md5 create pairs "[]" w points w']
  by (simp add: build_points_def)

lemma build_points_stops:
  assumes "build_points md5 create earlier w = (Inr pts, w2)"
    and "embed create (question pair) w2 = (Inl exc, w3)"
  shows "build_points md5 create (earlier @ pair # rest) w = (Inl exc, w3)"
  using assms by (simp add: build_points_def build_points_loop_append)

subsection \<open>The concrete collaborators\<close>

lemma ascii_is_Nil: "(ascii s = []) = (s = [])"
  by (simp add: ascii_def)

lemma steady_embed:
  "q \<noteq> [] \<Longrightarrow>
   embed steady q w = (Inr [1, 0], emit (EmbedRequest q) (Suc (ext w)) w)"
  by (simp add: embed_def embed_attempts_returns [where vs = "[]"] max_retries_def steady_def)

lemma sample_ids:
  "question_id sample_digest (ascii ''What is X?'') = Some (ascii ''47'')"
  "question_id sample_digest (ascii ''Why?'') = Some (ascii ''77'')"
  by (simp_all add: question_id_def sample_digest_def hexdigest_def hex_digit_def encode_cp_def
      ascii_def)

lemma steady_build_what:
  "build_points sample_digest steady [what_pair] \<lparr>ext = 0, trace = []\<rparr> =
     (Inr [what_point], \<lparr>ext = 1, trace = [EmbedRequest (ascii ''What is X?'')]\<rparr>)"
  by (simp add: build_points_def what_pair_def steady_embed sample_ids what_point_def emit_def
      ascii_is_Nil)

lemma fading_first:
  "q \<noteq> [] \<Longrightarrow>
   embed fading q \<lparr>ext = 0, trace = tr\<rparr> =
     (Inr [1, 0], \<lparr>ext = 1, trace = tr @ [EmbedRequest q]\<rparr>)"
  by (simp add: embed_def embed_attempts_returns [where vs = "[]"] max_retries_def fading_def
      emit_def)

lemma fading_later:
  "q \<noteq> [] \<Longrightarrow>
   embed fading q \<lparr>ext = Suc 0, trace = tr\<rparr> =
     (Inl (EmbeddingError failed_msg (Some (OpenAIError (ascii ''down'')))),
      \<lparr>ext = 4,
       trace = tr @ [EmbedRequest q, Sleep 2, EmbedRequest q, Sleep 4, EmbedRequest q]\<rparr>)"
  by (simp add: embed_def embed_attempts_retries embed_attempts_gives_up max_retries_def
      retry_delay_def fading_def emit_def)

lemma ready_ensure:
  "ensure_collection ready_client \<lparr>ext = x, trace = tr\<rparr> =
     (None, \<lparr>ext = x, trace = tr @ [GetCollection]\<rparr>)"
  by (simp add: ensure_collection_def ready_client_def emit_def)

lemma fading_build_what:
  "build_points sample_digest fading [what_pair] \<lparr>ext = 0, trace = [GetCollection]\<rparr> =
     (Inr [what_point],
      \<lparr>ext = 1, trace = [GetCollection, EmbedRequest (ascii ''What is X?'')]\<rparr>)"
  by (simp add: build_points_def what_pair_def fading_first sample_ids what_point_def
      ascii_is_Nil)

lemma steady_build_both:
  "build_points sample_digest steady [what_pair, why_pair]
     \<lparr>ext = 0, trace = [GetCollection]\<rparr> =
     (Inr [what_point, why_point],
      \<lparr>ext = 2,
       trace = [GetCollection, EmbedRequest (ascii ''What is X?''),
                EmbedRequest (ascii ''Why?'')]\<rparr>)"
  by (simp add: build_points_def what_pair_def why_pair_def steady_embed sample_ids
      what_point_def why_point_def emit_def ascii_is_Nil)

lemma ingestion_run_example:
  "main no_literals sample_digest steady ready_client (Workbook qa_sheet)
     (Some (default_settings (ascii ''faq''))) \<lparr>ext = 0, trace = []\<rparr> =
   (0, \<lparr>ext = 2,
       trace = [GetCollection, EmbedRequest (ascii ''What is X?''),
                EmbedRequest (ascii ''Why?''), Upsert [what_point, why_point]]\<rparr>)"
  by (simp add: main_def qa_sheet_load ready_ensure steady_build_both)
     (simp add: ready_client_def emit_def)

subsection \<open>The claims\<close>

text \<open>
  C3. Whenever \<^verbatim>\<open>build_points\<close> returns, the id of each point is the hexadecimal
  digest of the MD5 of the UTF-8 bytes of its record's question, and of nothing else:
  two runs over records with the same questions, whatever their answers, group ids and
  sources, whatever the provider and the state of the world, give the same ids. Running
  it twice on the same record is the case of equal lists.
\<close>

theorem point_id_is_question_hash:
  assumes "build_points md5 create pairs w = (Inr points, w')"
    and "build_points md5 create' pairs' v = (Inr points', v')"
    and "map question pairs = map question pairs'"
  shows "list_all2 (\<lambda>pt r. \<exists>bs. encode_utf8 (question r) = Some bs \<and>
                              point_id pt = hexdigest (md5 bs)) points pairs
     \<and> map point_id points = map point_id points'"
proof -
  have ids: "map (\<lambda>p. Some (point_id p)) points = map (\<lambda>r. question_id md5 (question r)) pairs"
    using assms(1) by (rule build_points_ids)
  have ids': "map (\<lambda>p. Some (point_id p)) points' = map (\<lambda>r. question_id md5 (question r)) pairs'"
    using assms(2) by (rule build_points_ids)
  have "map (\<lambda>r. question_id md5 (question r)) pairs =
        map (question_id md5) (map question pairs)" by simp
  also have "\<dots> = map (question_id md5) (map question pairs')" using assms(3) by simp
  also have "\<dots> = map (\<lambda>r. question_id md5 (question r)) pairs'" by simp
  finally have "map (\<lambda>p. Some (point_id p)) points = map (\<lambda>p. Some (point_id p)) points'"
    using ids ids' by simp
  then have "map Some (map point_id points) = map Some (map point_id points')"
    by (simp add: comp_def)
  then have same: "map point_id points = map point_id points'"
    by (simp only: inj_map_eq_map [OF inj_Some])
  from ids have len: "length points = length pairs" by (metis length_map)
  have "\<exists>bs. encode_utf8 (question (pairs ! n)) = Some bs \<and>
              point_id (points ! n) = hexdigest (md5 bs)" if "n < length points" for n
  proof -
    have "map (\<lambda>p. Some (point_id p)) points ! n =
          map (\<lambda>r. question_id md5 (question r)) pairs ! n" using ids by simp
    then have "question_id md5 (question (pairs ! n)) = Some (point_id (points ! n))"
      using that len by simp
    then show ?thesis by (auto simp: question_id_def split: option.splits)
  qed
  with len have "list_all2 (\<lambda>pt r. \<exists>bs. encode_utf8 (question r) = Some bs \<and>
                              point_id pt = hexdigest (md5 bs)) points pairs"
    by (simp add: list_all2_conv_all_nth)
  with same show ?thesis by simp
qed

theorem point_id_is_question_hash_witness:
  "build_points sample_digest steady [what_pair] \<lparr>ext = 0, trace = []\<rparr> =
     (Inr [what_point], \<lparr>ext = 1, trace = [EmbedRequest (ascii ''What is X?'')]\<rparr>)
   \<and> build_points sample_digest steady [revised_what_pair] \<lparr>ext = 0, trace = []\<rparr> =
     (Inr [what_point\<lparr>point_payload := pair_payload revised_what_pair\<rparr>],
      \<lparr>ext = 1, trace = [EmbedRequest (ascii ''What is X?'')]\<rparr>)
   \<and> map question [what_pair] = map question [revised_what_pair]
   \<and> answer what_pair \<noteq> answer revised_what_pair
   \<and> point_id what_point = point_id (what_point\<lparr>point_payload := pair_payload revised_what_pair\<rparr>)
   \<and> encode_utf8 (question what_pair) = Some [87, 104, 97, 116, 32, 105, 115, 32, 88, 63]
   \<and> point_id what_point = hexdigest (sample_digest [87, 104, 97, 116, 32, 105, 115, 32, 88, 63])"
proof -
  have revised: "build_points sample_digest steady [revised_what_pair] \<lparr>ext = 0, trace = []\<rparr> =
     (Inr [what_point\<lparr>point_payload := pair_payload revised_what_pair\<rparr>],
      \<lparr>ext = 1, trace = [EmbedRequest (ascii ''What is X?'')]\<rparr>)"
    by (simp add: build_points_def revised_what_pair_def steady_embed sample_ids what_point_def
        emit_def ascii_is_Nil)
  have q: "map question [what_pair] = map question [revised_what_pair]"
    by (simp add: what_pair_def revised_what_pair_def)
  have a: "answer what_pair \<noteq> answer revised_what_pair"
    by (simp add: what_pair_def revised_what_pair_def ascii_def)
  have enc: "encode_utf8 (question what_pair) = Some [87, 104, 97, 116, 32, 105, 115, 32, 88, 63]"
    by (simp add: what_pair_def ascii_def encode_cp_def)
  from point_id_is_question_hash [OF steady_build_what revised q] enc
  have "point_id what_point = hexdigest (sample_digest [87, 104, 97, 116, 32, 105, 115, 32, 88, 63])
      \<and> point_id what_point =
          point_id (what_point\<lparr>point_payload := pair_payload revised_what_pair\<rparr>)"
    by simp
  with steady_build_what revised q a enc show ?thesis by simp
qed

text \<open>
  C8. When extraction fails, \<^verbatim>\<open>main\<close> returns 1 and leaves the world as it was: no
  request to the provider and no upsert. When the embedding of one record fails after
  the records before it were embedded, \<^verbatim>\<open>main\<close> returns 1 in the world that failed
  call left, to which no upsert was added. In every run the upserts added to the trace
  are none, or exactly one that carries a point for every extracted record, in order.
\<close>

theorem ingestion_all_or_nothing:
  "(load_qa_pairs p book = Inl err \<longrightarrow> main p md5 create client book config w = (1, w))
   \<and> (load_qa_pairs p book = Inr (earlier @ pair # rest) \<and> config = Some st \<and>
       ensure_collection client w = (None, w1) \<and>
       build_points md5 create earlier w1 = (Inr pts, w2) \<and>
       embed create (question pair) w2 = (Inl exc, w3) \<longrightarrow>
         main p md5 create client book config w = (1, w3) \<and>
         upserts (trace w3) = upserts (trace w))
   \<and> (upserts (trace (snd (main p md5 create client book config w))) = upserts (trace w)
       \<or> (\<exists>pairs points.
             load_qa_pairs p book = Inr pairs \<and> length points = length pairs \<and>
             map point_payload points = map pair_payload pairs \<and>
             upserts (trace (snd (main p md5 create client book config w))) =
               upserts (trace w) @ [points]))"
proof -
  have parse: "main p md5 create client book config w = (1, w)"
    if "load_qa_pairs p book = Inl err"
    using that by (simp add: main_def)
  have abort: "main p md5 create client book config w = (1, w3) \<and>
               upserts (trace w3) = upserts (trace w)"
    if ld: "load_qa_pairs p book = Inr (earlier @ pair # rest)" and cf: "config = Some st"
      and ec: "ensure_collection client w = (None, w1)"
      and bp: "build_points md5 create earlier w1 = (Inr pts, w2)"
      and em: "embed create (question pair) w2 = (Inl exc, w3)"
  proof -
    have fail: "build_points md5 create (earlier @ pair # rest) w1 = (Inl exc, w3)"
      using bp em by (rule build_points_stops)
    then have run: "main p md5 create client book config w = (1, w3)"
      using ld cf ec by (simp add: main_def)
    have "upserts (trace w3) = upserts (trace w1)"
      using build_points_upserts [of md5 create "earlier @ pair # rest" w1] fail by simp
    also have "\<dots> = upserts (trace w)"
      using ensure_collection_upserts [of client w] ec by simp
    finally show ?thesis using run by simp
  qed
  have whole: "upserts (trace (snd (main p md5 create client book config w))) = upserts (trace w)
       \<or> (\<exists>pairs points.
             load_qa_pairs p book = Inr pairs \<and> length points = length pairs \<and>
             map point_payload points = map pair_payload pairs \<and>
             upserts (trace (snd (main p md5 create client book config w))) =
               upserts (trace w) @ [points])"
  proof (cases "load_qa_pairs p book")
    case (Inl e)
    then show ?thesis by (simp add: main_def)
  next
    case (Inr pairs)
    show ?thesis
    proof (cases config)
      case None
      with Inr show ?thesis by (simp add: main_def)
    next
      case (Some st')
      obtain r w1' where ec: "ensure_collection client w = (r, w1')"
        by (cases "ensure_collection client w")
      then have u1: "upserts (trace w1') = upserts (trace w)"
        using ensure_collection_upserts [of client w] by simp
      show ?thesis
      proof (cases r)
        case (Some e)
        with Inr \<open>config = Some st'\<close> ec u1 show ?thesis by (simp add: main_def)
      next
        case None
        obtain res w2' where bp: "build_points md5 create pairs w1' = (res, w2')"
          by (cases "build_points md5 create pairs w1'")
        then have u2: "upserts (trace w2') = upserts (trace w)"
          using build_points_upserts [of md5 create pairs w1'] u1 by simp
        show ?thesis
        proof (cases res)
          case (Inl e)
          with Inr \<open>config = Some st'\<close> ec None bp u2 show ?thesis by (simp add: main_def)
        next
          case built: (Inr points)
          have pay: "map point_payload points = map pair_payload pairs"
            using bp built by (simp add: build_points_payloads)
          then have len: "length points = length pairs" by (metis length_map)
          show ?thesis
          proof (cases "points = []")
            case True
            with Inr \<open>config = Some st'\<close> ec None bp built u2 show ?thesis
              by (simp add: main_def)
          next
            case False
            then have "upserts (trace (snd (main p md5 create client book config w))) =
                         upserts (trace w) @ [points]"
              using Inr \<open>config = Some st'\<close> ec None bp built u2
              by (simp add: main_def Let_def emit_def upserts_append
                  split: prod.splits option.splits)
            with Inr pay len show ?thesis by blast
          qed
        qed
      qed
    qed
  qed
  from parse abort whole show ?thesis by blast
qed

theorem ingestion_all_or_nothing_witness:
  "load_qa_pairs no_literals NoFile = Inl FileNotFoundError
   \<and> main no_literals sample_digest fading ready_client NoFile
        (Some (default_settings (ascii ''faq''))) \<lparr>ext = 0, trace = []\<rparr> =
       (1, \<lparr>ext = 0, trace = []\<rparr>)
   \<and> load_qa_pairs no_literals (Workbook qa_sheet) = Inr ([what_pair] @ why_pair # [])
   \<and> embed fading (question why_pair)
        \<lparr>ext = 1, trace = [GetCollection, EmbedRequest (ascii ''What is X?'')]\<rparr> =
       (Inl (EmbeddingError failed_msg (Some (OpenAIError (ascii ''down'')))),
        \<lparr>ext = 4,
         trace = [GetCollection, EmbedRequest (ascii ''What is X?''),
                  EmbedRequest (ascii ''Why?''), Sleep 2, EmbedRequest (ascii ''Why?''),
                  Sleep 4, EmbedRequest (ascii ''Why?'')]\<rparr>)
   \<and> main no_literals sample_digest fading ready_client (Workbook qa_sheet)
        (Some (default_settings (ascii ''faq''))) \<lparr>ext = 0, trace = []\<rparr> =
       (1, \<lparr>ext = 4,
           trace = [GetCollection, EmbedRequest (ascii ''What is X?''),
                    EmbedRequest (ascii ''Why?''), Sleep 2, EmbedRequest (ascii ''Why?''),
                    Sleep 4, EmbedRequest (ascii ''Why?'')]\<rparr>)
   \<and> upserts [GetCollection, EmbedRequest (ascii ''What is X?''),
                EmbedRequest (ascii ''Why?''), Sleep 2, EmbedRequest (ascii ''Why?''),
                Sleep 4, EmbedRequest (ascii ''Why?'')] = []"
proof -
  have nofile: "load_qa_pairs no_literals NoFile = Inl FileNotFoundError"
    by (simp add: load_qa_pairs_def)
  have first: "main no_literals sample_digest fading ready_client NoFile
        (Some (default_settings (ascii ''faq''))) \<lparr>ext = 0, trace = []\<rparr> =
       (1, \<lparr>ext = 0, trace = []\<rparr>)"
    using ingestion_all_or_nothing [where p = no_literals and book = NoFile
        and err = FileNotFoundError and ?md5.0 = sample_digest and create = fading
        and client = ready_client and config = "Some (default_settings (ascii ''faq''))"
        and w = "\<lparr>ext = 0, trace = []\<rparr>"] nofile
    by simp
  have ld: "load_qa_pairs no_literals (Workbook qa_sheet) = Inr ([what_pair] @ why_pair # [])"
    by (simp add: qa_sheet_load)
  have ec: "ensure_collection ready_client \<lparr>ext = 0, trace = []\<rparr> =
              (None, \<lparr>ext = 0, trace = [GetCollection]\<rparr>)"
    by (simp add: ready_ensure)
  have em: "embed fading (question why_pair)
        \<lparr>ext = 1, trace = [GetCollection, EmbedRequest (ascii ''What is X?'')]\<rparr> =
       (Inl (EmbeddingError failed_msg (Some (OpenAIError (ascii ''down'')))),
        \<lparr>ext = 4,
         trace = [GetCollection, EmbedRequest (ascii ''What is X?''),
                  EmbedRequest (ascii ''Why?''), Sleep 2, EmbedRequest (ascii ''Why?''),
                  Sleep 4, EmbedRequest (ascii ''Why?'')]\<rparr>)"
    by (simp add: why_pair_def fading_later ascii_is_Nil)
  have second: "main no_literals sample_digest fading ready_client (Workbook qa_sheet)
        (Some (default_settings (ascii ''faq''))) \<lparr>ext = 0, trace = []\<rparr> =
       (1, \<lparr>ext = 4,
           trace = [GetCollection, EmbedRequest (ascii ''What is X?''),
                    EmbedRequest (ascii ''Why?''), Sleep 2, EmbedRequest (ascii ''Why?''),
                    Sleep 4, EmbedRequest (ascii ''Why?'')]\<rparr>)
     \<and> upserts [GetCollection, EmbedRequest (ascii ''What is X?''),
                EmbedRequest (ascii ''Why?''), Sleep 2, EmbedRequest (ascii ''Why?''),
                Sleep 4, EmbedRequest (ascii ''Why?'')] = []"
    using ingestion_all_or_nothing [where p = no_literals and book = "Workbook qa_sheet"
        and earlier = "[what_pair]" and pair = why_pair and rest = "[]"
        and config = "Some (default_settings (ascii ''faq''))"
        and st = "default_settings (ascii ''faq'')" and client = ready_client
        and w = "\<lparr>ext = 0, trace = []\<rparr>" and ?w1.0 = "\<lparr>ext = 0, trace = [GetCollection]\<rparr>"
        and ?md5.0 = sample_digest and create = fading and pts = "[what_point]"
        and ?w2.0 = "\<lparr>ext = 1, trace = [GetCollection, EmbedRequest (ascii ''What is X?'')]\<rparr>"]
      ld ec fading_build_what em
    by simp
  from nofile first ld em second show ?thesis by simp
qed


end
